theory Spec2Isabelle
  imports Main
begin

section \<open>Python text and values\<close>

text \<open>
  A Python \<open>str\<close> is a sequence of code points, so \<open>len\<close> counts code points and not
  bytes. A \<open>bytes\<close> object is a \<^typ>\<open>string\<close> (a list of 8-bit characters).
\<close>

type_synonym pystr = "nat list"

definition py :: "string \<Rightarrow> pystr" where
  "py s = map of_char s"

datatype exn =
    KeyError | TypeError | ValueError | AttributeError | JSONDecodeError
  | OSError | UnicodeEncodeError | UnicodeDecodeError | Exception pystr
  | Unmodelled

text \<open>
  \<open>Unmodelled\<close> marks a place where Python would go on with a value this model does not
  represent (the \<open>repr\<close> of a container, a float); no theorem below draws on it.
\<close>

subsection \<open>\<open>str.strip\<close>, \<open>str.startswith\<close>, \<open>str.replace\<close>, \<open>int\<close>, \<open>str\<close>\<close>

definition isspace :: "nat \<Rightarrow> bool" where
  "isspace c \<longleftrightarrow>
     (9 \<le> c \<and> c \<le> 13) \<or> (28 \<le> c \<and> c \<le> 32) \<or> c = 133 \<or> c = 160 \<or> c = 5760
     \<or> (8192 \<le> c \<and> c \<le> 8202) \<or> c = 8232 \<or> c = 8233 \<or> c = 8239 \<or> c = 8287
     \<or> c = 12288"

definition strip :: "pystr \<Rightarrow> pystr" where
  "strip s = rev (dropWhile isspace (rev (dropWhile isspace s)))"

definition startswith :: "pystr \<Rightarrow> pystr \<Rightarrow> bool" where
  "startswith s p \<longleftrightarrow> take (length p) s = p"

definition backslash :: nat where
  "backslash = 92"

text \<open>\<open>s.replace('\\', r)\<close>: every backslash becomes \<open>r\<close>.\<close>

definition replace_backslash :: "pystr \<Rightarrow> pystr \<Rightarrow> pystr" where
  "replace_backslash r s = concat (map (\<lambda>c. if c = backslash then r else [c]) s)"

definition isdigit :: "nat \<Rightarrow> bool" where
  "isdigit c \<longleftrightarrow> 48 \<le> c \<and> c \<le> 57"

definition underscore :: nat where
  "underscore = 95"

text \<open>
  The digit part of an integer literal as \<open>int\<close> accepts it: digits, with single underscores
  between digits. (Decimal digits of other scripts, which \<open>int\<close> also accepts, are not
  modelled.)
\<close>

fun digit_part :: "pystr \<Rightarrow> bool" where
  "digit_part [] = False"
| "digit_part [c] = isdigit c"
| "digit_part (c # d # r) =
     (isdigit c \<and> (if d = underscore then r \<noteq> [] \<and> digit_part r else digit_part (d # r)))"

definition digits_value :: "pystr \<Rightarrow> nat" where
  "digits_value s = foldl (\<lambda>a c. 10 * a + (c - 48)) 0 (filter isdigit s)"

definition int_of_str :: "pystr \<Rightarrow> exn + int" where
  "int_of_str s =
     (let t = strip s;
          neg = (t \<noteq> [] \<and> hd t = 45);
          u = (if t \<noteq> [] \<and> (hd t = 45 \<or> hd t = 43) then tl t else t)
      in if digit_part u
         then Inr (if neg then - int (digits_value u) else int (digits_value u))
         else Inl ValueError)"

function digits_of :: "nat \<Rightarrow> pystr" where
  "digits_of n = (if n < 10 then [48 + n] else digits_of (n div 10) @ [48 + n mod 10])"
  by pat_completeness auto
termination
  by (relation "measure id") auto

declare digits_of.simps [simp del]

definition str_int :: "int \<Rightarrow> pystr" where
  "str_int i = (if i < 0 then 45 # digits_of (nat (- i)) else digits_of (nat i))"

subsection \<open>\<open>str.format\<close> on a template with named fields\<close>

text \<open>
  The templates live in \<open>util\<close>, which is not part of the sources at hand. They are
  parameters here, already split into literal text and named replacement fields
  (what \<open>str.format\<close> does with \<open>{name}\<close>, \<open>{{\<close> and \<open>}}\<close>). A field with no keyword
  argument raises \<open>KeyError\<close>.
\<close>

datatype seg = Lit pystr | Field pystr

type_synonym template = "seg list"

fun format :: "template \<Rightarrow> (pystr \<times> pystr) list \<Rightarrow> exn + pystr" where
  "format [] kw = Inr []"
| "format (Lit t # segs) kw =
     (case format segs kw of Inl e \<Rightarrow> Inl e | Inr r \<Rightarrow> Inr (t @ r))"
| "format (Field f # segs) kw =
     (case map_of kw f of
        None \<Rightarrow> Inl KeyError
      | Some v \<Rightarrow> (case format segs kw of Inl e \<Rightarrow> Inl e | Inr r \<Rightarrow> Inr (v @ r)))"

subsection \<open>UTF-8\<close>

definition encodable :: "nat \<Rightarrow> bool" where
  "encodable c \<longleftrightarrow> c < 0x110000 \<and> \<not> (0xD800 \<le> c \<and> c \<le> 0xDFFF)"

definition utf8_char :: "nat \<Rightarrow> string" where
  "utf8_char c =
     (if c < 0x80 then [char_of c]
      else if c < 0x800 then [char_of (0xC0 + c div 64), char_of (0x80 + c mod 64)]
      else if c < 0x10000 then
        [char_of (0xE0 + c div 4096), char_of (0x80 + c div 64 mod 64), char_of (0x80 + c mod 64)]
      else
        [char_of (0xF0 + c div 262144), char_of (0x80 + c div 4096 mod 64),
         char_of (0x80 + c div 64 mod 64), char_of (0x80 + c mod 64)])"

text \<open>\<open>bytes(s, 'UTF-8')\<close> and \<open>s.encode('UTF-8')\<close>: a lone surrogate cannot be encoded.\<close>

definition utf8 :: "pystr \<Rightarrow> exn + string" where
  "utf8 s = (if list_all encodable s then Inr (concat (map utf8_char s)) else Inl UnicodeEncodeError)"

subsection \<open>JSON documents and Python objects\<close>

text \<open>
  The tree \<open>json.loads\<close> returns and \<open>json.dumps\<close> takes. Numbers with a fraction or an
  exponent are not modelled. \<open>json.loads\<close> and \<open>json.dumps\<close> themselves are library code and
  stay parameters (\<open>loads\<close>, \<open>dumps\<close> below); \<open>None\<close> from \<open>loads\<close> is \<open>JSONDecodeError\<close>.
\<close>

datatype json =
    JNull | JBool bool | JInt int | JStr pystr
  | JArr "json list" | JObj "(pystr \<times> json) list"

text \<open>\<open>c.get(key, default)\<close> on what \<open>json.loads\<close> returned.\<close>

fun json_get :: "json \<Rightarrow> pystr \<Rightarrow> json \<Rightarrow> exn + json" where
  "json_get (JObj kvs) k d = (case map_of kvs k of None \<Rightarrow> Inr d | Some v \<Rightarrow> Inr v)"
| "json_get _ k d = Inl AttributeError"

text \<open>\<open>int(x)\<close>.\<close>

fun json_int :: "json \<Rightarrow> exn + int" where
  "json_int (JInt i) = Inr i"
| "json_int (JBool b) = Inr (if b then 1 else 0)"
| "json_int (JStr s) = int_of_str s"
| "json_int _ = Inl TypeError"

text \<open>
  Python objects with identity: dictionaries and lists live in a store, addressed by their
  index; a value is immediate or a reference. A dictionary keeps its keys in insertion order.
\<close>

datatype pyval = VNone | VBool bool | VInt int | VStr pystr | VRef nat

datatype pyobj = ODict "(pystr \<times> pyval) list" | OList "pyval list"

type_synonym heap = "pyobj list"

fun dict_set :: "(pystr \<times> 'v) list \<Rightarrow> pystr \<Rightarrow> 'v \<Rightarrow> (pystr \<times> 'v) list" where
  "dict_set [] k v = [(k, v)]"
| "dict_set ((k', v') # kvs) k v =
     (if k' = k then (k, v) # kvs else (k', v') # dict_set kvs k v)"

text \<open>\<open>x[key]\<close> with a string key.\<close>

definition getitem :: "heap \<Rightarrow> pyval \<Rightarrow> pystr \<Rightarrow> exn + pyval" where
  "getitem h x k =
     (case x of
        VRef a \<Rightarrow>
          (if a < length h then
             (case h ! a of
                ODict kvs \<Rightarrow> (case map_of kvs k of None \<Rightarrow> Inl KeyError | Some v \<Rightarrow> Inr v)
              | OList vs \<Rightarrow> Inl TypeError)
           else Inl TypeError)
      | _ \<Rightarrow> Inl TypeError)"

text \<open>\<open>int(x)\<close> and \<open>x == n\<close> for an integer \<open>n\<close>; \<open>n in xs\<close> for a list \<open>xs\<close>.\<close>

fun py_int :: "pyval \<Rightarrow> exn + int" where
  "py_int (VInt i) = Inr i"
| "py_int (VBool b) = Inr (if b then 1 else 0)"
| "py_int (VStr s) = int_of_str s"
| "py_int _ = Inl TypeError"

fun eq_int :: "int \<Rightarrow> pyval \<Rightarrow> bool" where
  "eq_int n (VInt i) = (n = i)"
| "eq_int n (VBool b) = (n = (if b then 1 else 0))"
| "eq_int n _ = False"

definition int_in :: "int \<Rightarrow> pyval list \<Rightarrow> bool" where
  "int_in n xs = list_ex (eq_int n) xs"

text \<open>
  What \<open>json.loads\<close> allocates: the objects of a document, children before their parent.
\<close>

fun build :: "json \<Rightarrow> heap \<Rightarrow> pyval \<times> heap"
  and build_list :: "json list \<Rightarrow> heap \<Rightarrow> pyval list \<times> heap"
  and build_items :: "(pystr \<times> json) list \<Rightarrow> heap \<Rightarrow> (pystr \<times> pyval) list \<times> heap"
where
  "build JNull h = (VNone, h)"
| "build (JBool b) h = (VBool b, h)"
| "build (JInt i) h = (VInt i, h)"
| "build (JStr s) h = (VStr s, h)"
| "build (JArr js) h = (case build_list js h of (vs, h') \<Rightarrow> (VRef (length h'), h' @ [OList vs]))"
| "build (JObj kvs) h =
     (case build_items kvs h of (d, h') \<Rightarrow> (VRef (length h'), h' @ [ODict d]))"
| "build_list [] h = ([], h)"
| "build_list (j # js) h =
     (case build j h of (v, h1) \<Rightarrow> (case build_list js h1 of (vs, h2) \<Rightarrow> (v # vs, h2)))"
| "build_items [] h = ([], h)"
| "build_items ((k, j) # kvs) h =
     (case build j h of (v, h1) \<Rightarrow> (case build_items kvs h1 of (d, h2) \<Rightarrow> ((k, v) # d, h2)))"

text \<open>
  What \<open>json.dumps\<close> reads: the document below a value. The fuel bounds the nesting depth;
  with as much fuel as the store has objects, only a circular structure runs out.
\<close>

fun reify :: "nat \<Rightarrow> heap \<Rightarrow> pyval \<Rightarrow> json option"
  and reify_list :: "nat \<Rightarrow> heap \<Rightarrow> pyval list \<Rightarrow> json list option"
  and reify_items :: "nat \<Rightarrow> heap \<Rightarrow> (pystr \<times> pyval) list \<Rightarrow> (pystr \<times> json) list option"
where
  "reify n h VNone = Some JNull"
| "reify n h (VBool b) = Some (JBool b)"
| "reify n h (VInt i) = Some (JInt i)"
| "reify n h (VStr s) = Some (JStr s)"
| "reify 0 h (VRef a) = None"
| "reify (Suc n) h (VRef a) =
     (if a < length h then
        (case h ! a of
           ODict kvs \<Rightarrow> map_option JObj (reify_items n h kvs)
         | OList vs \<Rightarrow> map_option JArr (reify_list n h vs))
      else None)"
| "reify_list n h [] = Some []"
| "reify_list n h (v # vs) =
     (case reify n h v of None \<Rightarrow> None
      | Some j \<Rightarrow> map_option ((#) j) (reify_list n h vs))"
| "reify_items n h [] = Some []"
| "reify_items n h ((k, v) # kvs) =
     (case reify n h v of None \<Rightarrow> None
      | Some j \<Rightarrow> map_option ((#) (k, j)) (reify_items n h kvs))"

section \<open>The relay's state and its surroundings\<close>

text \<open>
  What \<open>util\<close> and the standard library supply. The constants and templates of \<open>util\<close> are
  parameters; so are \<open>os.path\<close> and \<open>json\<close>.
\<close>

record util =
  CONTENT_HEADER :: pystr
  INITIALIZE_RESPONSE :: pystr
  ATTACH_ARGS :: template
  ATTACH_TEMPLATE :: template
  RUN_TEMPLATE :: template
  EXEC_COMMAND :: template
  debugpy_path :: pystr
  dirname :: "pystr \<Rightarrow> pystr"
  basename :: "pystr \<Rightarrow> pystr"
  path_split :: "pystr \<Rightarrow> pystr \<times> pystr"
  join :: "pystr \<Rightarrow> pystr \<Rightarrow> pystr"
  gettempdir :: pystr
  loads :: "pystr \<Rightarrow> json option"
  dumps :: "json \<Rightarrow> pystr"

text \<open>The activities \<open>run_in_new_thread\<close> is asked to start, with their arguments.\<close>

datatype thread =
    Attach_to_maya pyval
  | Start_debugging pyval int
  | Debugpy_send_loop
  | Os_exit int

text \<open>Everything the relay does to the outside, in the order it does it.\<close>

datatype event =
    Log "pystr list"
  | Interface_send pystr
  | Run_in_new_thread thread "int option"
  | File_write pystr pystr
  | Maya_settimeout int
  | Maya_connect pyval int
  | Maya_send string
  | Debugpy_connect pyval int
  | Debugpy_close
  | Log_failure exn

text \<open>The module's globals, the store of Python objects and the events so far.\<close>

record state =
  heap :: heap
  processed_seqs :: "pyval list"
  run_code :: pystr
  debugpy_send_queue :: "pystr option list"
  events :: "event list"

definition emit :: "event \<Rightarrow> state \<Rightarrow> state" where
  "emit e st = st\<lparr>events := events st @ [e]\<rparr>"

definition queue_put :: "pystr option \<Rightarrow> state \<Rightarrow> state" where
  "queue_put m st = st\<lparr>debugpy_send_queue := debugpy_send_queue st @ [m]\<rparr>"

text \<open>How the two writes of \<open>send_code_to_maya\<close> come out.\<close>

datatype maya_io = Maya_ok | File_fails | Send_fails

section \<open>\<open>send_code_to_maya\<close>\<close>

definition send_code_to_maya :: "util \<Rightarrow> maya_io \<Rightarrow> state \<Rightarrow> pystr \<Rightarrow> state \<times> exn option" where
  "send_code_to_maya U io st code =
     (let filepath = join U (gettempdir U) (py ''temp.py'') in
      if io = File_fails then (st, Some OSError)
      else
        let st1 = emit (File_write filepath code) st in
        (case format (EXEC_COMMAND U)
                [(py ''tmp_file_path'',
                  replace_backslash [backslash, backslash, backslash, backslash] filepath)] of
           Inl e \<Rightarrow> (st1, Some e)
         | Inr cmd \<Rightarrow>
             let st2 = emit (Log [py ''Sending '' @ cmd @ py '' to Maya'']) st1 in
             (case utf8 cmd of
                Inl e \<Rightarrow> (st2, Some e)
              | Inr b \<Rightarrow>
                  if io = Send_fails then (st2, Some OSError)
                  else (emit (Maya_send b) st2, None))))"

section \<open>\<open>on_receive_from_debugpy\<close>\<close>

definition on_receive_from_debugpy ::
  "util \<Rightarrow> maya_io \<Rightarrow> state \<Rightarrow> pystr \<Rightarrow> state \<times> exn option" where
  "on_receive_from_debugpy U io st message =
     (case loads U message of
        None \<Rightarrow> (st, Some JSONDecodeError)
      | Some c \<Rightarrow>
     (case json_get c (py ''request_seq'') (JInt (- 1)) of
        Inl e \<Rightarrow> (st, Some e)
      | Inr rs \<Rightarrow>
     (case json_int rs of
        Inl e \<Rightarrow> (st, Some e)
      | Inr seq \<Rightarrow>
     (case json_get c (py ''command'') (JStr []) of
        Inl e \<Rightarrow> (st, Some e)
      | Inr cmd \<Rightarrow>
     (case (if cmd = JStr (py ''configurationDone'')
            then send_code_to_maya U io st (run_code st) else (st, None)) of
        (st1, Some e) \<Rightarrow> (st1, Some e)
      | (st1, None) \<Rightarrow>
          if int_in seq (processed_seqs st1)
          then (emit (Log [py ''Already processed, debugpy response is:'', message]) st1, None)
          else (emit (Interface_send message)
                  (emit (Log [py ''Received from debugpy:'', message]) st1), None))))))"

section \<open>\<open>on_receive_from_debugger\<close>\<close>

text \<open>\<open>x.copy()\<close>: a new object with the same entries (the entries themselves are shared).\<close>

definition copy :: "heap \<Rightarrow> pyval \<Rightarrow> exn + pyval \<times> heap" where
  "copy h x =
     (case x of
        VRef a \<Rightarrow> if a < length h then Inr (VRef (length h), h @ [h ! a]) else Inl TypeError
      | _ \<Rightarrow> Inl AttributeError)"

text \<open>\<open>x[key] = v\<close> with a string key.\<close>

definition setitem :: "heap \<Rightarrow> pyval \<Rightarrow> pystr \<Rightarrow> pyval \<Rightarrow> exn + heap" where
  "setitem h x k v =
     (case x of
        VRef a \<Rightarrow>
          (if a < length h then
             (case h ! a of
                ODict kvs \<Rightarrow> Inr (h[a := ODict (dict_set kvs k v)])
              | OList vs \<Rightarrow> Inl TypeError)
           else Inl TypeError)
      | _ \<Rightarrow> Inl TypeError)"

definition json_dumps :: "util \<Rightarrow> heap \<Rightarrow> pyval \<Rightarrow> exn + pystr" where
  "json_dumps U h x =
     (case reify (length h) h x of None \<Rightarrow> Inl ValueError | Some j \<Rightarrow> Inr (dumps U j))"

text \<open>How \<open>str.format\<close> renders a value put into a field.\<close>

fun format_value :: "pyval \<Rightarrow> exn + pystr" where
  "format_value (VStr s) = Inr s"
| "format_value (VInt i) = Inr (str_int i)"
| "format_value (VBool b) = Inr (if b then py ''True'' else py ''False'')"
| "format_value VNone = Inr (py ''None'')"
| "format_value (VRef a) = Inl Unmodelled"

text \<open>A path handed to \<open>dirname\<close> or asked for its \<open>replace\<close> has to be a \<open>str\<close>.\<close>

fun as_path :: "pyval \<Rightarrow> exn + pystr" where
  "as_path (VStr s) = Inr s"
| "as_path _ = Inl TypeError"

text \<open>Lines 90 to 96: the text of the new arguments.\<close>

definition new_args :: "util \<Rightarrow> heap \<Rightarrow> pyval \<Rightarrow> exn + pystr" where
  "new_args U h contents =
     (case getitem h contents (py ''arguments'') of Inl e \<Rightarrow> Inl e | Inr config \<Rightarrow>
     (case getitem h config (py ''program'') of Inl e \<Rightarrow> Inl e | Inr program \<Rightarrow>
     (case as_path program of Inl e \<Rightarrow> Inl e | Inr p \<Rightarrow>
     (case getitem h config (py ''debugpy'') of Inl e \<Rightarrow> Inl e | Inr debugpy \<Rightarrow>
     (case getitem h debugpy (py ''host'') of Inl e \<Rightarrow> Inl e | Inr host \<Rightarrow>
     (case getitem h debugpy (py ''port'') of Inl e \<Rightarrow> Inl e | Inr port \<Rightarrow>
     (case py_int port of Inl e \<Rightarrow> Inl e | Inr n \<Rightarrow>
     (case format_value host of Inl e \<Rightarrow> Inl e | Inr hostname \<Rightarrow>
        format (ATTACH_ARGS U)
          [(py ''dir'', replace_backslash [backslash, backslash] (dirname U p)),
           (py ''hostname'', hostname),
           (py ''port'', str_int n),
           (py ''filepath'', replace_backslash [backslash, backslash] p)]))))))))"

text \<open>Lines 82 and 83, the branch for \<open>initialize\<close>; the message stays as it is.\<close>

definition initialize_branch :: "util \<Rightarrow> state \<Rightarrow> pyval \<Rightarrow> pystr \<Rightarrow> state \<times> (exn + pystr)" where
  "initialize_branch U st contents message =
     (case loads U (INITIALIZE_RESPONSE U) of
        None \<Rightarrow> (st, Inl JSONDecodeError)
      | Some r \<Rightarrow>
          let st1 = emit (Interface_send (dumps U r)) st in
          (case getitem (heap st) contents (py ''seq'') of
             Inl e \<Rightarrow> (st1, Inl e)
           | Inr s \<Rightarrow> (st1\<lparr>processed_seqs := processed_seqs st1 @ [s]\<rparr>, Inr message)))"

text \<open>Lines 87 to 103, the branch for \<open>attach\<close>; it yields the rewritten message.\<close>

definition attach_branch :: "util \<Rightarrow> state \<Rightarrow> pyval \<Rightarrow> state \<times> (exn + pystr)" where
  "attach_branch U st contents =
     (let st1 = emit (Run_in_new_thread (Attach_to_maya contents) None) st in
      case new_args U (heap st) contents of
        Inl e \<Rightarrow> (st1, Inl e)
      | Inr args \<Rightarrow>
     (case copy (heap st) contents of
        Inl e \<Rightarrow> (st1, Inl e)
      | Inr (contents', h2) \<Rightarrow>
     (case loads U args of
        None \<Rightarrow> (st1\<lparr>heap := h2\<rparr>, Inl JSONDecodeError)
      | Some a \<Rightarrow>
     (case build a h2 of (arguments, h3) \<Rightarrow>
     (case setitem h3 contents' (py ''arguments'') arguments of
        Inl e \<Rightarrow> (st1\<lparr>heap := h3\<rparr>, Inl e)
      | Inr h4 \<Rightarrow>
     (case json_dumps U h4 contents' of
        Inl e \<Rightarrow> (st1\<lparr>heap := h4\<rparr>, Inl e)
      | Inr message' \<Rightarrow>
          (emit (Log [py ''New attach arguments loaded:'', args]) (st1\<lparr>heap := h4\<rparr>),
           Inr message')))))))"

definition on_receive_from_debugger :: "util \<Rightarrow> state \<Rightarrow> pystr \<Rightarrow> state \<times> exn option" where
  "on_receive_from_debugger U st message =
     (case loads U message of
        None \<Rightarrow> (st, Some JSONDecodeError)
      | Some j \<Rightarrow>
     (case build j (heap st) of (contents, h1) \<Rightarrow>
        let st1 = emit (Log [py ''Received from Debugger:'', message]) (st\<lparr>heap := h1\<rparr>) in
     (case getitem h1 contents (py ''command'') of
        Inl e \<Rightarrow> (st1, Some e)
      | Inr cmd \<Rightarrow>
     (case (if cmd = VStr (py ''initialize'') then initialize_branch U st1 contents message
            else if cmd = VStr (py ''attach'') then attach_branch U st1 contents
            else (st1, Inr message)) of
        (st2, Inl e) \<Rightarrow> (st2, Some e)
      | (st2, Inr message') \<Rightarrow> (queue_put (Some message') st2, None)))))"

text \<open>The state once the message is parsed and logged (lines 73 and 75).\<close>

definition received :: "state \<Rightarrow> heap \<Rightarrow> pystr \<Rightarrow> state" where
  "received st h1 m = emit (Log [py ''Received from Debugger:'', m]) (st\<lparr>heap := h1\<rparr>)"

text \<open>What was sent to the debugger, and what was submitted to Maya, in order.\<close>

fun interface_sends :: "event list \<Rightarrow> pystr list" where
  "interface_sends [] = []"
| "interface_sends (Interface_send m # es) = m # interface_sends es"
| "interface_sends (_ # es) = interface_sends es"

definition sent_to_debugger :: "state \<Rightarrow> pystr list" where
  "sent_to_debugger st = interface_sends (events st)"

fun maya_sends :: "event list \<Rightarrow> string list" where
  "maya_sends [] = []"
| "maya_sends (Maya_send b # es) = b # maya_sends es"
| "maya_sends (_ # es) = maya_sends es"

section \<open>\<open>attach_to_maya\<close>\<close>

text \<open>The text of the exception raised when Maya's command port cannot be reached.\<close>

definition remediation :: "pystr \<Rightarrow> pystr \<Rightarrow> pystr" where
  "remediation host port =
     py ''\<newline>            \<newline>            \<newline>            \<newline>''
     @ py ''                Please run the following command in Maya and try again:\<newline>''
     @ py ''                cmds.commandPort(name='' @ [34] @ host @ py '':'' @ port @ [34]
     @ py '', sourceType='' @ [34] @ py ''mel'' @ [34] @ py '')\<newline>            ''"

text \<open>\<open>s[:-3]\<close> and \<open>a or b\<close> on strings.\<close>

definition drop_last3 :: "pystr \<Rightarrow> pystr" where
  "drop_last3 s = take (length s - 3) s"

definition or_else :: "pystr \<Rightarrow> pystr \<Rightarrow> pystr" where
  "or_else a b = (if a \<noteq> [] then a else b)"

text \<open>Lines 116 to 124: the code that starts the debug engine inside Maya.\<close>

definition attach_code :: "util \<Rightarrow> heap \<Rightarrow> pyval \<Rightarrow> exn + pystr" where
  "attach_code U h config =
     (case getitem h config (py ''debugpy'') of Inl e \<Rightarrow> Inl e | Inr debugpy \<Rightarrow>
     (case getitem h debugpy (py ''host'') of Inl e \<Rightarrow> Inl e | Inr host \<Rightarrow>
     (case getitem h debugpy (py ''port'') of Inl e \<Rightarrow> Inl e | Inr port \<Rightarrow>
     (case py_int port of Inl e \<Rightarrow> Inl e | Inr n \<Rightarrow>
     (case format_value host of Inl e \<Rightarrow> Inl e | Inr hostname \<Rightarrow>
        format (ATTACH_TEMPLATE U)
          [(py ''debugpy_path'', debugpy_path U),
           (py ''hostname'', hostname),
           (py ''port'', str_int n)])))))"

text \<open>Lines 128 to 131: the Run Directive.\<close>

definition make_run_code :: "util \<Rightarrow> heap \<Rightarrow> pyval \<Rightarrow> exn + pystr" where
  "make_run_code U h config =
     (case getitem h config (py ''program'') of Inl e \<Rightarrow> Inl e | Inr program \<Rightarrow>
     (case as_path program of Inl e \<Rightarrow> Inl e | Inr p \<Rightarrow>
        format (RUN_TEMPLATE U)
          [(py ''dir'', dirname U p),
           (py ''file_name'',
            or_else (drop_last3 (snd (path_split U p)))
                    (drop_last3 (basename U (fst (path_split U p)))))]))"

text \<open>Line 136 and the address of line 160.\<close>

definition address :: "heap \<Rightarrow> pyval \<Rightarrow> pystr \<Rightarrow> exn + pyval \<times> int" where
  "address h config which =
     (case getitem h config which of Inl e \<Rightarrow> Inl e | Inr peer \<Rightarrow>
     (case getitem h peer (py ''host'') of Inl e \<Rightarrow> Inl e | Inr host \<Rightarrow>
     (case getitem h peer (py ''port'') of Inl e \<Rightarrow> Inl e | Inr port \<Rightarrow>
     (case py_int port of Inl e \<Rightarrow> Inl e | Inr n \<Rightarrow> Inr (host, n)))))"

text \<open>
  \<open>connect_ok\<close> says whether Maya's command port accepts the connection in time; a host that
  is not a string cannot be connected to at all.
\<close>

fun connects :: "bool \<Rightarrow> pyval \<Rightarrow> bool" where
  "connects connect_ok (VStr s) = connect_ok"
| "connects connect_ok _ = False"

definition attach_to_maya ::
  "util \<Rightarrow> bool \<Rightarrow> maya_io \<Rightarrow> state \<Rightarrow> pyval \<Rightarrow> state \<times> exn option" where
  "attach_to_maya U connect_ok io st contents =
     (case getitem (heap st) contents (py ''arguments'') of
        Inl e \<Rightarrow> (st, Some e)
      | Inr config \<Rightarrow>
     (case attach_code U (heap st) config of
        Inl e \<Rightarrow> (st, Some e)
      | Inr code \<Rightarrow>
     (case make_run_code U (heap st) config of
        Inl e \<Rightarrow> (st, Some e)
      | Inr run \<Rightarrow>
        let st1 = emit (Log [py ''RUN: \<newline>'' @ run]) (st\<lparr>run_code := run\<rparr>) in
     (case address (heap st) config (py ''maya'') of
        Inl e \<Rightarrow> (st1, Some e)
      | Inr (maya_host, maya_port) \<Rightarrow>
        let st2 = emit (Maya_connect maya_host maya_port) (emit (Maya_settimeout 3) st1) in
        if \<not> connects connect_ok maya_host then
          let st3 = emit (Run_in_new_thread (Os_exit 0) (Some 1)) st2 in
          (case format_value maya_host of
             Inl e \<Rightarrow> (st3, Some e)
           | Inr host \<Rightarrow> (st3, Some (Exception (remediation host (str_int maya_port)))))
        else
          (case send_code_to_maya U io (emit (Log [py ''Sending attach code to Maya'']) st2) code of
             (st3, Some e) \<Rightarrow> (st3, Some e)
           | (st3, None) \<Rightarrow>
               let st4 = emit (Log [py ''Successfully attached to Maya'']) st3 in
               (case address (heap st) config (py ''debugpy'') of
                  Inl e \<Rightarrow> (st4, Some e)
                | Inr (host, port) \<Rightarrow>
                    (emit (Run_in_new_thread (Start_debugging host port) None) st4, None)))))))"

section \<open>The wire to the debug engine\<close>

subsection \<open>\<open>debugpy_send_loop\<close>\<close>

text \<open>
  The queue is given by the items that are put on it, in order; \<open>get()\<close> on an empty queue
  waits. The socket is given by \<open>ok\<close>: whether the \<open>i\<close>-th call of \<open>send\<close> goes through (it then
  takes the whole buffer) or raises \<open>OSError\<close>.
\<close>

datatype ending = Sentinel | Write_failed | Waiting | Died exn

record sending =
  ending :: ending
  wire :: "string list"
  sends :: nat
  logged :: "event list"
  left :: "pystr option list"

definition crlf_crlf :: pystr where
  "crlf_crlf = [13, 10, 13, 10]"

text \<open>Line 253: \<open>CONTENT_HEADER + '{}\r\n\r\n'.format(len(msg))\<close>.\<close>

definition header_text :: "util \<Rightarrow> pystr \<Rightarrow> pystr" where
  "header_text U msg = CONTENT_HEADER U @ str_int (int (length msg)) @ crlf_crlf"


definition stopped :: "ending \<Rightarrow> pystr option list \<Rightarrow> sending" where
  "stopped e q = \<lparr>ending = e, wire = [], sends = 0, logged = [], left = q\<rparr>"


subsection \<open>The text stream of \<open>debugpy_socket.makefile()\<close>\<close>

text \<open>
  \<open>makefile()\<close> gives a text stream: the bytes are decoded (strictly; the locale's encoding
  is taken to be UTF-8) and, the stream being in universal-newlines mode, every \<open>'\r\n'\<close> and
  every other \<open>'\r'\<close> reaches the reader as \<open>'\n'\<close>.
\<close>

definition continuation :: "char \<Rightarrow> bool" where
  "continuation b \<longleftrightarrow> (0x80 :: nat) \<le> of_char b \<and> (of_char b :: nat) < 0xC0"

definition low6 :: "char \<Rightarrow> nat" where
  "low6 b = of_char b - 0x80"

fun decoded :: "nat \<Rightarrow> exn + pystr \<Rightarrow> exn + pystr" where
  "decoded c (Inr s) = Inr (c # s)"
| "decoded c (Inl e) = Inl e"

fun utf8_decode :: "string \<Rightarrow> exn + pystr" where
  "utf8_decode [] = Inr []"
| "utf8_decode (b # bs) =
     (let n = of_char b :: nat in
      if n < 0x80 then decoded n (utf8_decode bs)
      else if 0xC2 \<le> n \<and> n < 0xE0 then
        (case bs of
           b1 # r \<Rightarrow>
             if continuation b1 then decoded ((n - 0xC0) * 64 + low6 b1) (utf8_decode r)
             else Inl UnicodeDecodeError
         | _ \<Rightarrow> Inl UnicodeDecodeError)
      else if 0xE0 \<le> n \<and> n < 0xF0 then
        (case bs of
           b1 # b2 # r \<Rightarrow>
             let c = (n - 0xE0) * 4096 + low6 b1 * 64 + low6 b2 in
             if continuation b1 \<and> continuation b2 \<and> 0x800 \<le> c \<and> encodable c
             then decoded c (utf8_decode r) else Inl UnicodeDecodeError
         | _ \<Rightarrow> Inl UnicodeDecodeError)
      else if 0xF0 \<le> n \<and> n < 0xF5 then
        (case bs of
           b1 # b2 # b3 # r \<Rightarrow>
             let c = (n - 0xF0) * 262144 + low6 b1 * 4096 + low6 b2 * 64 + low6 b3 in
             if continuation b1 \<and> continuation b2 \<and> continuation b3 \<and> 0x10000 \<le> c \<and> encodable c
             then decoded c (utf8_decode r) else Inl UnicodeDecodeError
         | _ \<Rightarrow> Inl UnicodeDecodeError)
      else Inl UnicodeDecodeError)"

fun universal_newlines :: "pystr \<Rightarrow> pystr" where
  "universal_newlines [] = []"
| "universal_newlines [c] = (if c = 13 then [10] else [c])"
| "universal_newlines (c # d # r) =
     (if c = 13 then (if d = 10 then 10 # universal_newlines r else 10 # universal_newlines (d # r))
      else c # universal_newlines (d # r))"

definition makefile_text :: "string \<Rightarrow> exn + pystr" where
  "makefile_text b = (case utf8_decode b of Inl e \<Rightarrow> Inl e | Inr t \<Rightarrow> Inr (universal_newlines t))"

text \<open>
  The reader's view of the stream: the text that has arrived, and what lies behind it.
  Behind it the peer may still send (a read that needs more then waits), or the peer has
  closed (a read gets what is there, possibly nothing), or the connection is broken (the
  read raises).
\<close>

datatype behind = More | Eof | Broken

record fstream =
  arrived :: pystr
  behind :: behind

datatype 'a reading = Got 'a fstream | Blocks | Raises exn

text \<open>\<open>fstream.readline()\<close>: up to and including the next \<open>'\n'\<close>.\<close>

definition readline :: "fstream \<Rightarrow> pystr reading" where
  "readline s =
     (if 10 \<in> set (arrived s) then
        Got (takeWhile (\<lambda>c. c \<noteq> 10) (arrived s) @ [10])
            (s\<lparr>arrived := tl (dropWhile (\<lambda>c. c \<noteq> 10) (arrived s))\<rparr>)
      else
        (case behind s of
           More \<Rightarrow> Blocks
         | Eof \<Rightarrow> Got (arrived s) (s\<lparr>arrived := []\<rparr>)
         | Broken \<Rightarrow> Raises OSError))"

text \<open>\<open>fstream.read(n)\<close>: \<open>n\<close> characters, fewer only when the peer has closed.\<close>

definition read :: "nat \<Rightarrow> fstream \<Rightarrow> pystr reading" where
  "read n s =
     (if n \<le> length (arrived s) then
        Got (take n (arrived s)) (s\<lparr>arrived := drop n (arrived s)\<rparr>)
      else
        (case behind s of
           More \<Rightarrow> Blocks
         | Eof \<Rightarrow> Got (arrived s) (s\<lparr>arrived := []\<rparr>)
         | Broken \<Rightarrow> Raises OSError))"

subsection \<open>The receive loop of \<open>start_debugging\<close>\<close>

text \<open>Lines 208 to 215: the header lines, up to the blank line or the end of the stream.\<close>

function read_headers :: "util \<Rightarrow> fstream \<Rightarrow> int \<Rightarrow> int reading" where
  "read_headers U s content_length =
     (case readline s of
        Blocks \<Rightarrow> Blocks
      | Raises e \<Rightarrow> Raises e
      | Got line s' \<Rightarrow>
          let header = (if line \<noteq> [] then strip line else line) in
          if header = [] then Got content_length s'
          else if startswith header (CONTENT_HEADER U) then
            (case int_of_str (drop (length (CONTENT_HEADER U)) header) of
               Inl e \<Rightarrow> Raises e
             | Inr n \<Rightarrow> read_headers U s' n)
          else read_headers U s' content_length)"
  by pat_completeness auto

termination
proof (relation "measure (\<lambda>(U, s, n). length (arrived s))")
  show "wf (measure (\<lambda>(U, s, n). length (arrived s)))" by simp
next
  fix U :: util and s :: fstream and content_length :: int and line s' header e n
  assume r: "readline s = Got line s'" and h: "header = (if line \<noteq> [] then strip line else line)"
    and ne: "header \<noteq> []"
  from h ne have l: "line \<noteq> []" by (auto split: if_splits)
  have "length (arrived s') < length (arrived s)"
  proof (cases "10 \<in> set (arrived s)")
    case True
    then have "dropWhile (\<lambda>c. c \<noteq> 10) (arrived s) \<noteq> []"
      by (simp add: dropWhile_eq_Nil_conv)
    then have "length (tl (dropWhile (\<lambda>c. c \<noteq> 10) (arrived s)))
                 < length (dropWhile (\<lambda>c. c \<noteq> 10) (arrived s))"
      by (cases "dropWhile (\<lambda>c. c \<noteq> 10) (arrived s)") simp_all
    also have "\<dots> \<le> length (arrived s)"
      by (rule length_dropWhile_le)
    finally show ?thesis using r True by (auto simp: readline_def)
  next
    case False
    with r l show ?thesis
      by (cases "behind s") (auto simp: readline_def)
  qed
  then show "((U, s', n), (U, s, content_length)) \<in> measure (\<lambda>(U, s, n). length (arrived s))"
    by simp
  from \<open>length (arrived s') < length (arrived s)\<close>
  show "((U, s', content_length), (U, s, content_length)) \<in> measure (\<lambda>(U, s, n). length (arrived s))"
    by simp
qed

declare read_headers.simps [simp del]

text \<open>
  Lines 219 to 223: the body, read until as many characters as declared have come. The loop
  need not end, so it runs on fuel: \<open>None\<close> says that it was still running when the fuel
  was used up.
\<close>

fun read_body :: "nat \<Rightarrow> fstream \<Rightarrow> int \<Rightarrow> pystr \<Rightarrow> (pystr \<times> int) reading option" where
  "read_body 0 s content_length total_content = None"
| "read_body (Suc fuel) s content_length total_content =
     (if 0 < content_length then
        (case read (nat content_length) s of
           Blocks \<Rightarrow> Some Blocks
         | Raises e \<Rightarrow> Some (Raises e)
         | Got content s' \<Rightarrow>
             read_body fuel s' (content_length - int (length content)) (total_content @ content))
      else Some (Got (total_content, content_length) s))"

text \<open>Lines 207 to 226: one turn of the outer loop, up to the call of the handler.\<close>

datatype frame =
    Dispatch pystr fstream
  | No_message fstream
  | Frame_blocks
  | Frame_raises exn
  | Still_reading

definition receive_frame :: "util \<Rightarrow> nat \<Rightarrow> fstream \<Rightarrow> frame" where
  "receive_frame U fuel s =
     (case read_headers U s 0 of
        Blocks \<Rightarrow> Frame_blocks
      | Raises e \<Rightarrow> Frame_raises e
      | Got content_length s1 \<Rightarrow>
          if 0 < content_length then
            (case read_body fuel s1 content_length [] of
               None \<Rightarrow> Still_reading
             | Some Blocks \<Rightarrow> Frame_blocks
             | Some (Raises e) \<Rightarrow> Frame_raises e
             | Some (Got (total_content, n) s2) \<Rightarrow>
                 if n = 0 then Dispatch total_content s2 else No_message s2)
          else No_message s1)"

text \<open>
  Lines 203 to 234: the outer loop. It is left only through the \<open>except\<close> branch, which logs,
  closes the socket and breaks. \<open>Running\<close> says that the loop was still turning when the fuel
  was used up, \<open>Blocked\<close> that it waits in a read.
\<close>

datatype receiving = Running state fstream | Blocked state fstream | Closed state exn

definition failure :: "exn \<Rightarrow> state \<Rightarrow> state" where
  "failure e st = emit Debugpy_close (emit (Log_failure e) st)"

fun receive_loop :: "nat \<Rightarrow> util \<Rightarrow> maya_io \<Rightarrow> state \<Rightarrow> fstream \<Rightarrow> receiving" where
  "receive_loop 0 U io st s = Running st s"
| "receive_loop (Suc fuel) U io st s =
     (case receive_frame U fuel s of
        Still_reading \<Rightarrow> Running st s
      | Frame_blocks \<Rightarrow> Blocked st s
      | Frame_raises e \<Rightarrow> Closed (failure e st) e
      | No_message s' \<Rightarrow> receive_loop fuel U io st s'
      | Dispatch message s' \<Rightarrow>
          (case on_receive_from_debugpy U io st message of
             (st', Some e) \<Rightarrow> Closed (failure e st') e
           | (st', None) \<Rightarrow> receive_loop fuel U io st' s'))"

text \<open>
  \<open>start_debugging\<close>: connect, start the send loop, and receive. A connection that cannot
  be made ends the activity with the exception.
\<close>

definition start_debugging ::
  "util \<Rightarrow> bool \<Rightarrow> nat \<Rightarrow> maya_io \<Rightarrow> state \<Rightarrow> pyval \<Rightarrow> int \<Rightarrow> fstream \<Rightarrow> receiving" where
  "start_debugging U connect_ok fuel io st host port s =
     (case host of
        VStr h \<Rightarrow>
          let st1 = emit (Debugpy_connect host port)
                      (emit (Log [py ''Connecting to '' @ h @ py '':'' @ str_int port]) st) in
          if \<not> connect_ok then Closed st1 OSError
          else
            receive_loop fuel U io
              (emit (Run_in_new_thread Debugpy_send_loop None)
                 (emit (Log [py ''Successfully connected to Maya for debugging. Starting...''])
                    st1)) s
      | _ \<Rightarrow> Closed st TypeError)"

section \<open>Sessions\<close>

text \<open>
  The handlers run when the surroundings call them: the debugger-facing reader for each
  inbound message, the receive loop for each decoded frame, and \<open>run_in_new_thread\<close> for an
  attach. A session is what the module's state becomes over a sequence of such calls, from
  the globals as the module sets them up.
\<close>

datatype activity =
    From_debugger pystr
  | From_debugpy maya_io pystr
  | Attaching bool maya_io pyval

section \<open>A concrete instance of the surroundings\<close>

text \<open>
  An instance of the parameters on which the model can be run: POSIX paths, a JSON codec
  given by a table of documents, and templates in the style of the adapter's.
\<close>

definition slash :: nat where
  "slash = 47"

definition posix_head :: "pystr \<Rightarrow> pystr" where
  "posix_head p = rev (dropWhile (\<lambda>c. c \<noteq> slash) (rev p))"

definition posix_basename :: "pystr \<Rightarrow> pystr" where
  "posix_basename p = rev (takeWhile (\<lambda>c. c \<noteq> slash) (rev p))"

definition posix_dirname :: "pystr \<Rightarrow> pystr" where
  "posix_dirname p =
     (let h = posix_head p in
      if h \<noteq> [] \<and> \<not> list_all (\<lambda>c. c = slash) h
      then rev (dropWhile (\<lambda>c. c = slash) (rev h)) else h)"

definition posix_join :: "pystr \<Rightarrow> pystr \<Rightarrow> pystr" where
  "posix_join a b =
     (if b \<noteq> [] \<and> hd b = slash then b
      else if a = [] \<or> last a = slash then a @ b
      else a @ [slash] @ b)"

definition address_doc :: "int \<Rightarrow> json" where
  "address_doc port = JObj [(py ''host'', JStr (py ''localhost'')), (py ''port'', JInt port)]"

definition initialize_request :: json where
  "initialize_request =
     JObj [(py ''seq'', JInt 1), (py ''type'', JStr (py ''request'')),
           (py ''command'', JStr (py ''initialize''))]"

definition initialize_response :: json where
  "initialize_response =
     JObj [(py ''request_seq'', JInt 1), (py ''success'', JBool True),
           (py ''command'', JStr (py ''initialize'')), (py ''type'', JStr (py ''response''))]"

definition attach_request :: json where
  "attach_request =
     JObj [(py ''seq'', JInt 2), (py ''type'', JStr (py ''request'')),
           (py ''command'', JStr (py ''attach'')),
           (py ''arguments'',
            JObj [(py ''program'', JStr (py ''/proj/tool.py'')),
                  (py ''maya'', address_doc 7001),
                  (py ''debugpy'', address_doc 7002)])]"

definition rewritten_arguments :: json where
  "rewritten_arguments =
     JObj [(py ''host'', JStr (py ''localhost'')), (py ''port'', JInt 7002),
           (py ''dir'', JStr (py ''/proj'')), (py ''file'', JStr (py ''/proj/tool.py''))]"

definition rewritten_request :: json where
  "rewritten_request =
     JObj [(py ''seq'', JInt 2), (py ''type'', JStr (py ''request'')),
           (py ''command'', JStr (py ''attach'')),
           (py ''arguments'', rewritten_arguments)]"

definition configuration_done :: json where
  "configuration_done =
     JObj [(py ''request_seq'', JInt 3), (py ''success'', JBool True),
           (py ''command'', JStr (py ''configurationDone'')), (py ''type'', JStr (py ''response''))]"

definition stopped_event :: json where
  "stopped_event = JObj [(py ''type'', JStr (py ''event'')), (py ''event'', JStr (py ''stopped''))]"

definition negative_initialize :: json where
  "negative_initialize =
     JObj [(py ''seq'', JInt (- 1)), (py ''type'', JStr (py ''request'')),
           (py ''command'', JStr (py ''initialize''))]"

definition initialize_request_text :: pystr where
  \<open>initialize_request_text =
     py ''{"seq": 1, "type": "request", "command": "initialize"}''\<close>

definition initialize_response_text :: pystr where
  \<open>initialize_response_text =
     py ''{"request_seq": 1, "success": true, "command": "initialize", "type": "response"}''\<close>

definition attach_request_text :: pystr where
  \<open>attach_request_text =
     py ''{"seq": 2, "type": "request", "command": "attach", "arguments": {"program": "/proj/tool.py", "maya": {"host": "localhost", "port": 7001}, "debugpy": {"host": "localhost", "port": 7002}}}''\<close>

definition rewritten_arguments_text :: pystr where
  \<open>rewritten_arguments_text =
     py ''{"host": "localhost", "port": 7002, "dir": "/proj", "file": "/proj/tool.py"}''\<close>

definition rewritten_request_text :: pystr where
  \<open>rewritten_request_text =
     py ''{"seq": 2, "type": "request", "command": "attach", "arguments": {"host": "localhost", "port": 7002, "dir": "/proj", "file": "/proj/tool.py"}}''\<close>

definition configuration_done_text :: pystr where
  \<open>configuration_done_text =
     py ''{"request_seq": 3, "success": true, "command": "configurationDone", "type": "response"}''\<close>

definition stopped_event_text :: pystr where
  \<open>stopped_event_text =
     py ''{"type": "event", "event": "stopped"}''\<close>

definition negative_initialize_text :: pystr where
  \<open>negative_initialize_text =
     py ''{"seq": -1, "type": "request", "command": "initialize"}''\<close>

definition documents :: "(pystr \<times> json) list" where
  "documents =
     [(initialize_request_text, initialize_request),
      (initialize_response_text, initialize_response),
      (attach_request_text, attach_request),
      (rewritten_arguments_text, rewritten_arguments),
      (rewritten_request_text, rewritten_request),
      (configuration_done_text, configuration_done),
      (stopped_event_text, stopped_event),
      (negative_initialize_text, negative_initialize)]"

definition text_of :: "json \<Rightarrow> pystr" where
  "text_of j = (case find (\<lambda>d. snd d = j) documents of Some d \<Rightarrow> fst d | None \<Rightarrow> [])"

definition sample_util :: util where
  \<open>sample_util =
     \<lparr>CONTENT_HEADER = py ''Content-Length: '',
      INITIALIZE_RESPONSE = initialize_response_text,
      ATTACH_ARGS =
        [Lit (py ''{"host": "''), Field (py ''hostname''), Lit (py ''", "port": ''),
         Field (py ''port''), Lit (py '', "dir": "''), Field (py ''dir''),
         Lit (py ''", "file": "''), Field (py ''filepath''), Lit (py ''"}'')],
      ATTACH_TEMPLATE =
        [Lit (py ''import sys; sys.path.insert(0, "''), Field (py ''debugpy_path''),
         Lit (py ''"); import debugpy; debugpy.listen(("''), Field (py ''hostname''),
         Lit (py ''", ''), Field (py ''port''), Lit (py ''))'')],
      RUN_TEMPLATE =
        [Lit (py ''import sys; sys.path.insert(0, "''), Field (py ''dir''),
         Lit (py ''"); import ''), Field (py ''file_name'')],
      EXEC_COMMAND =
        [Lit (py ''python("exec(open(''), Lit [backslash, 34], Field (py ''tmp_file_path''),
         Lit [backslash, 34], Lit (py '').read())")'')],
      debugpy_path = py ''/opt/debugpy'',
      dirname = posix_dirname,
      basename = posix_basename,
      path_split = (\<lambda>p. (posix_dirname p, posix_basename p)),
      join = posix_join,
      gettempdir = py ''/tmp'',
      loads = map_of documents,
      dumps = text_of\<rparr>\<close>

text \<open>The command the sample \<open>EXEC_COMMAND\<close> makes for the temporary file.\<close>

definition exec_text :: pystr where
  \<open>exec_text = py ''python("exec(open('' @ [backslash, 34] @ py ''/tmp/temp.py'' @ [backslash, 34]
          @ py '').read())")''\<close>

text \<open>The objects \<open>json.loads\<close> makes of the sample attach request, in an empty store.\<close>

definition attach_heap :: heap where
  "attach_heap =
     [ODict [(py ''host'', VStr (py ''localhost'')), (py ''port'', VInt 7001)],
      ODict [(py ''host'', VStr (py ''localhost'')), (py ''port'', VInt 7002)],
      ODict [(py ''program'', VStr (py ''/proj/tool.py'')), (py ''maya'', VRef 0),
             (py ''debugpy'', VRef 1)],
      ODict [(py ''seq'', VInt 2), (py ''type'', VStr (py ''request'')),
             (py ''command'', VStr (py ''attach'')), (py ''arguments'', VRef 2)]]"

text \<open>The module's globals when it is loaded.\<close>

definition initial_state :: state where
  "initial_state =
     \<lparr>heap = [], processed_seqs = [], run_code = [], debugpy_send_queue = [], events = []\<rparr>"

fun perform :: "util \<Rightarrow> state \<Rightarrow> activity \<Rightarrow> state" where
  "perform U st (From_debugger m) = fst (on_receive_from_debugger U st m)"
| "perform U st (From_debugpy io m) = fst (on_receive_from_debugpy U io st m)"
| "perform U st (Attaching connect_ok io contents) =
     fst (attach_to_maya U connect_ok io st contents)"

definition session :: "util \<Rightarrow> activity list \<Rightarrow> state" where
  "session U acts = foldl (perform U) initial_state acts"

text \<open>
  A recorded sequence number that is the value of \<open>seq\<close> in an \<open>initialize\<close> request the
  debugger sent during the session.
\<close>

definition from_initialize :: "util \<Rightarrow> activity list \<Rightarrow> pyval \<Rightarrow> bool" where
  "from_initialize U acts v \<longleftrightarrow>
     (\<exists>m kvs j hm. From_debugger m \<in> set acts \<and> loads U m = Some (JObj kvs)
        \<and> map_of kvs (py ''command'') = Some (JStr (py ''initialize''))
        \<and> map_of kvs (py ''seq'') = Some j \<and> v = fst (build j hm))"

text \<open>What the sample templates make of the sample attach request.\<close>

definition sample_attach_code :: pystr where
  \<open>sample_attach_code =
     py ''import sys; sys.path.insert(0, "/opt/debugpy"); import debugpy; debugpy.listen(("localhost", 7002))''\<close>

definition sample_run_code :: pystr where
  \<open>sample_run_code = py ''import sys; sys.path.insert(0, "/proj"); import tool''\<close>

text \<open>\<open>agrees h h' H\<close>: the store \<open>H\<close> still has every object allocated between \<open>h\<close> and \<open>h'\<close>.\<close>

definition agrees :: "heap \<Rightarrow> heap \<Rightarrow> heap \<Rightarrow> bool" where
  "agrees h h' H \<longleftrightarrow>
     length h' \<le> length H \<and> (\<forall>a. length h \<le> a \<longrightarrow> a < length h' \<longrightarrow> H ! a = h' ! a)"

definition attached :: "activity list" where
  "attached =
     [From_debugger initialize_request_text, From_debugger attach_request_text,
      Attaching True Maya_ok (VRef 4)]"

definition request_heap :: heap where
  "request_heap =
     [ODict [(py ''seq'', VInt 1), (py ''type'', VStr (py ''request'')),
             (py ''command'', VStr (py ''initialize''))],
      ODict [(py ''host'', VStr (py ''localhost'')), (py ''port'', VInt 7001)],
      ODict [(py ''host'', VStr (py ''localhost'')), (py ''port'', VInt 7002)],
      ODict [(py ''program'', VStr (py ''/proj/tool.py'')), (py ''maya'', VRef 1),
             (py ''debugpy'', VRef 2)],
      ODict [(py ''seq'', VInt 2), (py ''type'', VStr (py ''request'')),
             (py ''command'', VStr (py ''attach'')), (py ''arguments'', VRef 3)]]"

definition attached_state :: state where
  "attached_state =
     \<lparr>heap = request_heap @
         [ODict [(py ''seq'', VInt 2), (py ''type'', VStr (py ''request'')),
                 (py ''command'', VStr (py ''attach'')), (py ''arguments'', VRef 6)],
          ODict [(py ''host'', VStr (py ''localhost'')), (py ''port'', VInt 7002),
                 (py ''dir'', VStr (py ''/proj'')), (py ''file'', VStr (py ''/proj/tool.py''))]],
      processed_seqs = [VInt 1],
      run_code = sample_run_code,
      debugpy_send_queue = [Some initialize_request_text, Some rewritten_request_text],
      events =
        [Log [py ''Received from Debugger:'', initialize_request_text],
         Interface_send initialize_response_text,
         Log [py ''Received from Debugger:'', attach_request_text],
         Run_in_new_thread (Attach_to_maya (VRef 4)) None,
         Log [py ''New attach arguments loaded:'', rewritten_arguments_text],
         Log [py ''RUN: \<newline>'' @ sample_run_code],
         Maya_settimeout 3,
         Maya_connect (VStr (py ''localhost'')) 7001,
         Log [py ''Sending attach code to Maya''],
         File_write (py ''/tmp/temp.py'') sample_attach_code,
         Log [py ''Sending '' @ exec_text @ py '' to Maya''],
         Maya_send (map char_of exec_text),
         Log [py ''Successfully attached to Maya''],
         Run_in_new_thread (Start_debugging (VStr (py ''localhost'')) 7002) None]\<rparr>"

text \<open>The same session, but with an \<open>initialize\<close> request that carries the sequence number -1.\<close>

definition attached_negative :: "activity list" where
  "attached_negative =
     [From_debugger negative_initialize_text, From_debugger attach_request_text,
      Attaching True Maya_ok (VRef 4)]"

text \<open>The code that was written to the temporary file, submission by submission.\<close>

fun file_writes :: "event list \<Rightarrow> pystr list" where
  "file_writes [] = []"
| "file_writes (File_write path code # es) = code # file_writes es"
| "file_writes (_ # es) = file_writes es"

text \<open>The bytes of an encodable text, and the two buffers the send loop writes for a message.\<close>

definition utf8_bytes :: "pystr \<Rightarrow> string" where
  "utf8_bytes s = concat (map utf8_char s)"

definition frame :: "util \<Rightarrow> pystr \<Rightarrow> string list" where
  "frame U msg = [utf8_bytes (header_text U msg), utf8_bytes msg]"





text \<open>The stream after the debug engine has closed the connection, all text read.\<close>

definition end_of_stream :: fstream where
  "end_of_stream = \<lparr>arrived = [], behind = Eof\<rparr>"

lemmas sample_texts = initialize_request_text_def initialize_response_text_def attach_request_text_def
        rewritten_arguments_text_def rewritten_request_text_def configuration_done_text_def
        stopped_event_text_def negative_initialize_text_def

section \<open>What \<open>json.loads\<close> leaves in the store\<close>

lemma build_items_rel:
  "build_items kvs h = (d, h') \<Longrightarrow>
   list_all2 (\<lambda>kj kv. fst kj = fst kv \<and> (\<exists>hm. snd kv = fst (build (snd kj) hm))) kvs d"
proof (induction kvs arbitrary: h d h')
  case Nil
  then show ?case by simp
next
  case (Cons a kvs)
  obtain k j where a: "a = (k, j)" by (cases a)
  obtain v h1 where b: "build j h = (v, h1)" by (cases "build j h")
  obtain d2 h2 where c: "build_items kvs h1 = (d2, h2)" by (cases "build_items kvs h1")
  from Cons.prems a b c have d: "d = (k, v) # d2" by simp
  have "v = fst (build j h)" using b by simp
  with Cons.IH[OF c] d a show ?case by auto
qed

lemma rel_map_of_Some:
  "list_all2 (\<lambda>kj kv. fst kj = fst kv \<and> P (snd kj) (snd kv)) kvs d \<Longrightarrow>
   map_of kvs k = Some j \<Longrightarrow> \<exists>v. map_of d k = Some v \<and> P j v"
  by (induction kvs d rule: list_all2_induct) (auto split: if_splits)

lemma rel_map_of_Some_rev:
  "list_all2 (\<lambda>kj kv. fst kj = fst kv \<and> P (snd kj) (snd kv)) kvs d \<Longrightarrow>
   map_of d k = Some v \<Longrightarrow> \<exists>j. map_of kvs k = Some j \<and> P j v"
  by (induction kvs d rule: list_all2_induct) (auto split: if_splits)

lemma build_obj:
  "build (JObj kvs) h = (contents, h1) \<Longrightarrow>
   \<exists>d h'. build_items kvs h = (d, h') \<and> contents = VRef (length h') \<and> h1 = h' @ [ODict d]"
  by (auto split: prod.splits)

lemma getitem_built_obj:
  assumes "build (JObj kvs) h = (contents, h1)"
  shows "(map_of kvs k = None \<longrightarrow> getitem h1 contents k = Inl KeyError)
       \<and> (\<forall>j. map_of kvs k = Some j \<longrightarrow> (\<exists>hm. getitem h1 contents k = Inr (fst (build j hm))))
       \<and> (\<forall>v. getitem h1 contents k = Inr v \<longrightarrow> (\<exists>j hm. map_of kvs k = Some j \<and> v = fst (build j hm)))"
proof -
  from build_obj[OF assms] obtain d h' where
    b: "build_items kvs h = (d, h')" and c: "contents = VRef (length h')" and h1: "h1 = h' @ [ODict d]"
    by blast
  have g: "getitem h1 contents k = (case map_of d k of None \<Rightarrow> Inl KeyError | Some v \<Rightarrow> Inr v)"
    by (simp add: getitem_def c h1)
  note r = build_items_rel[OF b]
  have n: "map_of kvs k = None \<Longrightarrow> map_of d k = None"
  proof (rule ccontr)
    assume a: "map_of kvs k = None" "map_of d k \<noteq> None"
    then obtain v where "map_of d k = Some v" by auto
    from rel_map_of_Some_rev[OF r this] a show False by auto
  qed
  have p1: "map_of kvs k = None \<longrightarrow> getitem h1 contents k = Inl KeyError"
    using n by (simp add: g)
  have p2: "\<forall>j. map_of kvs k = Some j \<longrightarrow> (\<exists>hm. getitem h1 contents k = Inr (fst (build j hm)))"
    using rel_map_of_Some[OF r, of k] by (fastforce simp: g)
  have p3: "\<forall>v. getitem h1 contents k = Inr v \<longrightarrow> (\<exists>j hm. map_of kvs k = Some j \<and> v = fst (build j hm))"
    using rel_map_of_Some_rev[OF r, of k] by (fastforce simp: g split: option.splits)
  show ?thesis using p1 p2 p3 by blast
qed

lemma built_imm:
  "fst (build j hm) = VStr s \<longleftrightarrow> j = JStr s"
  "fst (build j hm) = VInt i \<longleftrightarrow> j = JInt i"
  by (cases j; auto split: prod.splits)+

lemma build_imm_eq [simp]:
  "fst (build (JStr s) hm) = VStr s" "fst (build (JInt i) hm) = VInt i"
  by simp_all

section \<open>What the engine-side handler sends on\<close>

lemma interface_sends_append: "interface_sends (xs @ ys) = interface_sends xs @ interface_sends ys"
  by (induction xs rule: interface_sends.induct) auto

lemma sent_emit:
  "sent_to_debugger (emit e st) = sent_to_debugger st @ (case e of Interface_send m \<Rightarrow> [m] | _ \<Rightarrow> [])"
  by (cases e) (simp_all add: sent_to_debugger_def emit_def interface_sends_append)

lemma processed_emit: "processed_seqs (emit e st) = processed_seqs st"
  by (simp add: emit_def)

lemma send_code_to_maya_frame:
  "processed_seqs (fst (send_code_to_maya U io st code)) = processed_seqs st
   \<and> sent_to_debugger (fst (send_code_to_maya U io st code)) = sent_to_debugger st"
  by (simp add: send_code_to_maya_def Let_def sent_emit processed_emit split: sum.splits)

section \<open>The debugger-side handler\<close>

lemma getitem_not_obj:
  "build j h = (c, h1) \<Longrightarrow> \<forall>kvs. j \<noteq> JObj kvs \<Longrightarrow> getitem h1 c k = Inl TypeError"
  by (cases j) (auto simp: getitem_def split: prod.splits)

lemma built_imm_sym:
  "VStr s = fst (build j hm) \<longleftrightarrow> j = JStr s"
  "VInt i = fst (build j hm) \<longleftrightarrow> j = JInt i"
  using built_imm(1)[of j hm s] built_imm(2)[of j hm i] by auto

lemma attach_branch_processed:
  "processed_seqs (fst (attach_branch U st c)) = processed_seqs st"
  by (simp add: attach_branch_def Let_def emit_def split: sum.splits option.splits prod.splits)

lemma initialize_branch_processed:
  "v \<in> set (processed_seqs (fst (initialize_branch U st c m))) \<Longrightarrow>
   v \<in> set (processed_seqs st) \<or> getitem (heap st) c (py ''seq'') = Inr v"
  by (auto simp add: initialize_branch_def Let_def emit_def split: sum.splits option.splits)

lemma on_receive_from_debugger_Inl:
  assumes "loads U m = Some j" and "build j (heap st) = (contents, h1)"
    and "getitem h1 contents (py ''command'') = Inl e"
  shows "on_receive_from_debugger U st m = (received st h1 m, Some e)"
  by (simp add: on_receive_from_debugger_def assms received_def)

lemma on_receive_from_debugger_Inr:
  assumes "loads U m = Some j" and "build j (heap st) = (contents, h1)"
    and "getitem h1 contents (py ''command'') = Inr cmd"
  shows "on_receive_from_debugger U st m =
     (case (if cmd = VStr (py ''initialize'') then initialize_branch U (received st h1 m) contents m
            else if cmd = VStr (py ''attach'') then attach_branch U (received st h1 m) contents
            else (received st h1 m, Inr m)) of
        (st2, Inl e) \<Rightarrow> (st2, Some e)
      | (st2, Inr message') \<Rightarrow> (queue_put (Some message') st2, None))"
  by (simp add: on_receive_from_debugger_def assms received_def)

lemma on_receive_from_debugger_processed:
  assumes "v \<in> set (processed_seqs (fst (on_receive_from_debugger U st m)))"
  shows "v \<in> set (processed_seqs st)
       \<or> (\<exists>kvs j hm. loads U m = Some (JObj kvs)
             \<and> map_of kvs (py ''command'') = Some (JStr (py ''initialize''))
             \<and> map_of kvs (py ''seq'') = Some j \<and> v = fst (build j hm))"
proof (cases "loads U m")
  case None
  then have "on_receive_from_debugger U st m = (st, Some JSONDecodeError)"
    by (simp add: on_receive_from_debugger_def)
  with assms show ?thesis by simp
next
  case (Some j)
  obtain contents h1 where b: "build j (heap st) = (contents, h1)"
    by (cases "build j (heap st)")
  define st1 where "st1 = received st h1 m"
  have p1: "processed_seqs st1 = processed_seqs st" "heap st1 = h1"
    by (simp_all add: st1_def received_def emit_def)
  show ?thesis
  proof (cases "getitem h1 contents (py ''command'')")
    case (Inl e)
    from on_receive_from_debugger_Inl[OF Some b Inl] assms p1 show ?thesis
      by (simp add: st1_def)
  next
    case (Inr cmd)
    have obj: "\<exists>kvs. j = JObj kvs"
    proof (rule ccontr)
      assume "\<not> ?thesis"
      then have "getitem h1 contents (py ''command'') = Inl TypeError"
        using getitem_not_obj[OF b] by blast
      with Inr show False by simp
    qed
    then obtain kvs where j: "j = JObj kvs" by blast
    note g = getitem_built_obj[OF b[unfolded j]]
    define br where "br = (if cmd = VStr (py ''initialize'') then initialize_branch U st1 contents m
            else if cmd = VStr (py ''attach'') then attach_branch U st1 contents
            else (st1, Inr m))"
    have eq: "on_receive_from_debugger U st m =
            (case br of (st2, Inl e) \<Rightarrow> (st2, Some e)
             | (st2, Inr message') \<Rightarrow> (queue_put (Some message') st2, None))"
      unfolding br_def st1_def by (rule on_receive_from_debugger_Inr[OF Some b Inr])
    have "processed_seqs (fst (on_receive_from_debugger U st m)) = processed_seqs (fst br)"
      unfolding eq by (cases br rule: prod.exhaust; cases "snd br"; simp add: queue_put_def)
    with assms have v: "v \<in> set (processed_seqs (fst br))" by simp
    show ?thesis
    proof (cases "cmd = VStr (py ''initialize'')")
      case True
      from g[of "py ''command''"] Inr True obtain cj hm where
        cj: "map_of kvs (py ''command'') = Some cj" "VStr (py ''initialize'') = fst (build cj hm)"
        by blast
      from cj(2) have "cj = JStr (py ''initialize'')"
        by (simp only: built_imm_sym)
      with cj(1) have c: "map_of kvs (py ''command'') = Some (JStr (py ''initialize''))"
        by simp
      from v True have "v \<in> set (processed_seqs (fst (initialize_branch U st1 contents m)))"
        by (simp add: br_def)
      from initialize_branch_processed[OF this] p1
      have "v \<in> set (processed_seqs st) \<or> getitem h1 contents (py ''seq'') = Inr v"
        by simp
      then show ?thesis
      proof
        assume "v \<in> set (processed_seqs st)"
        then show ?thesis by simp
      next
        assume "getitem h1 contents (py ''seq'') = Inr v"
        with g[of "py ''seq''"] obtain sj hm where
          "map_of kvs (py ''seq'') = Some sj" "v = fst (build sj hm)"
          by blast
        with c Some j show ?thesis by blast
      qed
    next
      case False
      with v have "v \<in> set (processed_seqs st1)"
        by (simp add: br_def attach_branch_processed split: if_splits)
      with p1 show ?thesis by simp
    qed
  qed
qed

text \<open>
  C2. An inbound message that is a JSON object with command \<open>initialize\<close> and integer
  sequence number \<open>s\<close>: the handler raises nothing; what it does to the outside is one log
  line and one message to the debugger, the canned response (no thread is started and
  nothing is done towards the debug engine); \<open>s\<close> is appended to the recorded sequence
  numbers; and the original text is appended to the outbound queue.
\<close>

theorem initialize_short_circuit:
  assumes obj: "loads U message = Some (JObj kvs)"
    and cmd: "map_of kvs (py ''command'') = Some (JStr (py ''initialize''))"
    and seq: "map_of kvs (py ''seq'') = Some (JInt s)"
    and resp: "loads U (INITIALIZE_RESPONSE U) = Some r"
  shows "snd (on_receive_from_debugger U st message) = None
    \<and> events (fst (on_receive_from_debugger U st message)) =
        events st @ [Log [py ''Received from Debugger:'', message], Interface_send (dumps U r)]
    \<and> processed_seqs (fst (on_receive_from_debugger U st message)) = processed_seqs st @ [VInt s]
    \<and> debugpy_send_queue (fst (on_receive_from_debugger U st message)) =
        debugpy_send_queue st @ [Some message]"
proof -
  obtain contents h1 where b: "build (JObj kvs) (heap st) = (contents, h1)"
    by (cases "build (JObj kvs) (heap st)")
  from getitem_built_obj[OF b, of "py ''command''"] cmd
  have "\<exists>hm. getitem h1 contents (py ''command'') = Inr (fst (build (JStr (py ''initialize'')) hm))"
    by blast
  then have g1: "getitem h1 contents (py ''command'') = Inr (VStr (py ''initialize''))"
    by simp
  from getitem_built_obj[OF b, of "py ''seq''"] seq
  have "\<exists>hm. getitem h1 contents (py ''seq'') = Inr (fst (build (JInt s) hm))"
    by blast
  then have g2: "getitem h1 contents (py ''seq'') = Inr (VInt s)"
    by simp
  define st1 where "st1 = emit (Log [py ''Received from Debugger:'', message]) (st\<lparr>heap := h1\<rparr>)"
  have br: "initialize_branch U st1 contents message =
              ((emit (Interface_send (dumps U r)) st1)
                 \<lparr>processed_seqs := processed_seqs st1 @ [VInt s]\<rparr>, Inr message)"
    by (simp add: initialize_branch_def resp Let_def st1_def emit_def g2)
  have "on_receive_from_debugger U st message =
          (queue_put (Some message)
             ((emit (Interface_send (dumps U r)) st1)
                \<lparr>processed_seqs := processed_seqs st1 @ [VInt s]\<rparr>), None)"
    unfolding on_receive_from_debugger_def obj option.case b prod.case Let_def g1 sum.case
      st1_def[symmetric] br
    by simp
  then show ?thesis
    by (simp add: emit_def queue_put_def st1_def)
qed

theorem initialize_short_circuit_witness:
  "loads sample_util initialize_request_text
     = Some (JObj [(py ''seq'', JInt 1), (py ''type'', JStr (py ''request'')),
                   (py ''command'', JStr (py ''initialize''))])
   \<and> loads sample_util (INITIALIZE_RESPONSE sample_util) = Some initialize_response
   \<and> snd (on_receive_from_debugger sample_util initial_state initialize_request_text) = None
   \<and> events (fst (on_receive_from_debugger sample_util initial_state initialize_request_text)) =
        [Log [py ''Received from Debugger:'', initialize_request_text],
         Interface_send initialize_response_text]
   \<and> processed_seqs (fst (on_receive_from_debugger sample_util initial_state initialize_request_text))
        = [VInt 1]
   \<and> debugpy_send_queue (fst (on_receive_from_debugger sample_util initial_state initialize_request_text))
        = [Some initialize_request_text]"
proof -
  let ?kvs = "[(py ''seq'', JInt 1), (py ''type'', JStr (py ''request'')),
               (py ''command'', JStr (py ''initialize''))]"
  have h1: "loads sample_util initialize_request_text = Some (JObj ?kvs)"
    by (simp add: sample_util_def documents_def initialize_request_def py_def sample_texts)
  have h2: "map_of ?kvs (py ''command'') = Some (JStr (py ''initialize''))"
    by (simp add: py_def)
  have h3: "map_of ?kvs (py ''seq'') = Some (JInt 1)"
    by (simp add: py_def)
  have h4: "loads sample_util (INITIALIZE_RESPONSE sample_util) = Some initialize_response"
    by (simp add: sample_util_def documents_def py_def sample_texts)
  have h5: "dumps sample_util initialize_response = initialize_response_text"
    by (simp add: sample_util_def text_of_def documents_def initialize_request_def initialize_response_def py_def)
  from initialize_short_circuit[of sample_util initialize_request_text ?kvs 1 initialize_response initial_state,
      OF h1 h2 h3 h4] h1 h4 h5
  show ?thesis by (simp add: initial_state_def)
qed

section \<open>Sessions: what is recorded, and what the engine-side handler does with it\<close>

lemma on_receive_from_debugpy_result:
  assumes obj: "loads U message = Some (JObj kvs)"
    and seq: "json_int (case map_of kvs (py ''request_seq'') of None \<Rightarrow> JInt (- 1) | Some v \<Rightarrow> v) = Inr seq"
  shows "on_receive_from_debugpy U io st message =
     (case (if map_of kvs (py ''command'') = Some (JStr (py ''configurationDone''))
            then send_code_to_maya U io st (run_code st) else (st, None)) of
        (st1, Some e) \<Rightarrow> (st1, Some e)
      | (st1, None) \<Rightarrow>
          if int_in seq (processed_seqs st1)
          then (emit (Log [py ''Already processed, debugpy response is:'', message]) st1, None)
          else (emit (Interface_send message)
                  (emit (Log [py ''Received from debugpy:'', message]) st1), None))"
proof -
  define cmd where "cmd = (case map_of kvs (py ''command'') of None \<Rightarrow> JStr [] | Some v \<Rightarrow> v)"
  define rs where "rs = (case map_of kvs (py ''request_seq'') of None \<Rightarrow> JInt (- 1) | Some v \<Rightarrow> v)"
  have g1: "json_get (JObj kvs) (py ''request_seq'') (JInt (- 1)) = Inr rs"
    by (simp add: rs_def split: option.splits)
  have g2: "json_get (JObj kvs) (py ''command'') (JStr []) = Inr cmd"
    by (simp add: cmd_def split: option.splits)
  have g3: "json_int rs = Inr seq"
    using seq by (simp add: rs_def)
  have c: "(cmd = JStr (py ''configurationDone'')) =
           (map_of kvs (py ''command'') = Some (JStr (py ''configurationDone'')))"
    by (auto simp: cmd_def py_def split: option.splits)
  show ?thesis
    unfolding on_receive_from_debugpy_def
    by (simp add: obj g1 g2 g3 c del: json_get.simps)
qed

lemma on_receive_from_debugpy_processed:
  "processed_seqs (fst (on_receive_from_debugpy U io st m)) = processed_seqs st"
proof -
  have a: "processed_seqs (fst (send_code_to_maya U io st c)) = processed_seqs st" for c
    using send_code_to_maya_frame[of U io st c] by simp
  obtain st1 r where s: "send_code_to_maya U io st (run_code st) = (st1, r)"
    by (cases "send_code_to_maya U io st (run_code st)")
  with a[of "run_code st"] have p: "processed_seqs st1 = processed_seqs st" by simp
  show ?thesis
    unfolding on_receive_from_debugpy_def
    by (simp add: s p processed_emit split: option.splits sum.splits)
qed

lemma attach_to_maya_processed:
  "processed_seqs (fst (attach_to_maya U ok io st c)) = processed_seqs st"
proof -
  have a: "processed_seqs (fst (send_code_to_maya U io s c)) = processed_seqs s" for c s
    using send_code_to_maya_frame[of U io s c] by simp
  have b: "send_code_to_maya U io s c = (s', r) \<Longrightarrow> processed_seqs s' = processed_seqs s" for c s s' r
    using a[of s c] by simp
  show ?thesis
    unfolding attach_to_maya_def
    by (auto simp add: Let_def processed_emit emit_def dest!: b split: option.splits sum.splits prod.splits)
qed

lemma perform_processed:
  assumes "v \<in> set (processed_seqs (perform U st a))"
  shows "v \<in> set (processed_seqs st) \<or> from_initialize U [a] v"
proof (cases a)
  case (From_debugger m)
  with assms on_receive_from_debugger_processed[of v U st m] show ?thesis
    by (auto simp: from_initialize_def)
next
  case (From_debugpy io m)
  with assms show ?thesis by (simp add: on_receive_from_debugpy_processed)
next
  case (Attaching ok io c)
  with assms show ?thesis by (simp add: attach_to_maya_processed)
qed

lemma from_initialize_mono:
  "from_initialize U acts v \<Longrightarrow> set acts \<subseteq> set acts' \<Longrightarrow> from_initialize U acts' v"
  unfolding from_initialize_def by blast

lemma foldl_perform_processed:
  "v \<in> set (processed_seqs (foldl (perform U) st acts)) \<Longrightarrow>
   v \<in> set (processed_seqs st) \<or> from_initialize U acts v"
proof (induction acts arbitrary: st)
  case Nil
  then show ?case by simp
next
  case (Cons a acts)
  from Cons.IH[of "perform U st a"] Cons.prems
  have "v \<in> set (processed_seqs (perform U st a)) \<or> from_initialize U acts v"
    by simp
  then show ?case
  proof
    assume "v \<in> set (processed_seqs (perform U st a))"
    from perform_processed[OF this] show ?thesis
      using from_initialize_mono[of U "[a]" v "a # acts"] by auto
  next
    assume "from_initialize U acts v"
    then show ?thesis
      using from_initialize_mono[of U acts v "a # acts"] by auto
  qed
qed

lemma session_processed:
  "v \<in> set (processed_seqs (session U acts)) \<Longrightarrow> from_initialize U acts v"
  using foldl_perform_processed[of v U initial_state acts]
  by (simp add: session_def initial_state_def)

text \<open>
  What the handlers guarantee about the recorded sequence numbers: in every session each
  of them is the \<open>seq\<close> of an \<open>initialize\<close> request of that session. If none of these
  requests carried the sequence number \<open>-1\<close>, then \<open>-1\<close> is not recorded, and a JSON-object
  message from the debug engine that has no \<open>request_seq\<close> is sent on to the debugger,
  unchanged and once. (If its command is \<open>configurationDone\<close>, the submission to Maya is
  assumed to succeed.)
\<close>

lemma unanswered_message_forwarded:
  assumes init: "\<forall>m kvs. From_debugger m \<in> set acts \<longrightarrow> loads U m = Some (JObj kvs) \<longrightarrow>
                   map_of kvs (py ''command'') = Some (JStr (py ''initialize'')) \<longrightarrow>
                   map_of kvs (py ''seq'') \<noteq> Some (JInt (- 1))"
    and obj: "loads U message = Some (JObj kvs)"
    and none: "map_of kvs (py ''request_seq'') = None"
    and run: "map_of kvs (py ''command'') = Some (JStr (py ''configurationDone''))
              \<longrightarrow> snd (send_code_to_maya U io (session U acts) (run_code (session U acts))) = None"
  shows "(\<forall>v \<in> set (processed_seqs (session U acts)). from_initialize U acts v)
    \<and> \<not> int_in (- 1) (processed_seqs (session U acts))
    \<and> snd (on_receive_from_debugpy U io (session U acts) message) = None
    \<and> sent_to_debugger (fst (on_receive_from_debugpy U io (session U acts) message)) =
        sent_to_debugger (session U acts) @ [message]"
proof -
  let ?st = "session U acts"
  have inv: "\<forall>v \<in> set (processed_seqs ?st). from_initialize U acts v"
    using session_processed by blast
  have no: "\<not> int_in (- 1) (processed_seqs ?st)"
  proof
    assume "int_in (- 1) (processed_seqs ?st)"
    then obtain v where v: "v \<in> set (processed_seqs ?st)" "eq_int (- 1) v"
      by (auto simp: int_in_def list_ex_iff)
    from v(2) have "v = VInt (- 1)"
      by (cases v) (auto split: if_splits)
    with inv v(1) have "from_initialize U acts (VInt (- 1))" by blast
    then obtain m kvs' j hm where
      m: "From_debugger m \<in> set acts" "loads U m = Some (JObj kvs')"
         "map_of kvs' (py ''command'') = Some (JStr (py ''initialize''))"
         "map_of kvs' (py ''seq'') = Some j" "VInt (- 1) = fst (build j hm)"
      unfolding from_initialize_def by blast
    from m(5) have "j = JInt (- 1)" by (simp only: built_imm_sym)
    with m init show False by blast
  qed
  have seq: "json_int (case map_of kvs (py ''request_seq'') of None \<Rightarrow> JInt (- 1) | Some v \<Rightarrow> v) = Inr (- 1)"
    by (simp add: none)
  note res = on_receive_from_debugpy_result[OF obj seq, of io ?st]
  have fwd: "snd (on_receive_from_debugpy U io ?st message) = None
    \<and> sent_to_debugger (fst (on_receive_from_debugpy U io ?st message)) = sent_to_debugger ?st @ [message]"
  proof (cases "map_of kvs (py ''command'') = Some (JStr (py ''configurationDone''))")
    case True
    with run have ok: "snd (send_code_to_maya U io ?st (run_code ?st)) = None" by simp
    then obtain st1 where st1: "send_code_to_maya U io ?st (run_code ?st) = (st1, None)"
      by (cases "send_code_to_maya U io ?st (run_code ?st)") auto
    from send_code_to_maya_frame[of U io ?st "run_code ?st"] st1
    have fr: "processed_seqs st1 = processed_seqs ?st" "sent_to_debugger st1 = sent_to_debugger ?st"
      by simp_all
    show ?thesis
      unfolding res by (simp add: True st1 fr no sent_emit)
  next
    case False
    show ?thesis
      unfolding res by (simp add: False no sent_emit)
  qed
  from inv no fwd show ?thesis by blast
qed

lemma send_code_to_maya_ok:
  assumes fmt: "format (EXEC_COMMAND U)
            [(py ''tmp_file_path'',
              replace_backslash [backslash, backslash, backslash, backslash]
                (join U (gettempdir U) (py ''temp.py'')))] = Inr cmd"
    and enc: "utf8 cmd = Inr b"
  shows "send_code_to_maya U Maya_ok st code =
     (st\<lparr>events := events st @
         [File_write (join U (gettempdir U) (py ''temp.py'')) code,
          Log [py ''Sending '' @ cmd @ py '' to Maya''], Maya_send b]\<rparr>, None)"
  by (simp add: send_code_to_maya_def fmt enc Let_def emit_def)


section \<open>Running the model on the sample instance\<close>

lemma loads_sample:
  "loads sample_util initialize_request_text = Some initialize_request"
  "loads sample_util initialize_response_text = Some initialize_response"
  "loads sample_util attach_request_text = Some attach_request"
  "loads sample_util rewritten_arguments_text = Some rewritten_arguments"
  "loads sample_util configuration_done_text = Some configuration_done"
  "loads sample_util stopped_event_text = Some stopped_event"
  "loads sample_util negative_initialize_text = Some negative_initialize"
  by (simp_all add: sample_util_def documents_def sample_texts py_def)


lemma sample_fields:
  "INITIALIZE_RESPONSE sample_util = initialize_response_text"
  "gettempdir sample_util = py ''/tmp''"
  "join sample_util = posix_join"
  "dirname sample_util = posix_dirname"
  by (simp_all add: sample_util_def)

lemma sample_exec_command:
  \<open>format (EXEC_COMMAND sample_util)
     [(py ''tmp_file_path'',
       replace_backslash [backslash, backslash, backslash, backslash]
         (join sample_util (gettempdir sample_util) (py ''temp.py'')))]
   = Inr (py ''python("exec(open('' @ [backslash, 34] @ py ''/tmp/temp.py'' @ [backslash, 34]
          @ py '').read())")'')\<close>
  by (simp add: sample_util_def py_def posix_join_def slash_def replace_backslash_def backslash_def)

lemma utf8_ascii:
  "list_all (\<lambda>c. c < 128) s \<Longrightarrow> utf8 s = Inr (map char_of s)"
proof -
  assume a: "list_all (\<lambda>c. c < 128) s"
  then have "list_all encodable s"
    by (induction s) (auto simp: encodable_def)
  moreover from a have "concat (map utf8_char s) = map char_of s"
    by (induction s) (auto simp: utf8_char_def)
  ultimately show ?thesis by (simp add: utf8_def)
qed

lemma exec_text_ascii: "list_all (\<lambda>c. c < 128) exec_text"
  by (simp add: exec_text_def py_def backslash_def)

lemma sample_send_code:
  "send_code_to_maya sample_util Maya_ok st code =
     (st\<lparr>events := events st @
         [File_write (py ''/tmp/temp.py'') code,
          Log [py ''Sending '' @ exec_text @ py '' to Maya''], Maya_send (map char_of exec_text)]\<rparr>, None)"
proof -
  have j: "join sample_util (gettempdir sample_util) (py ''temp.py'') = py ''/tmp/temp.py''"
    by (simp add: sample_util_def posix_join_def slash_def py_def)
  from send_code_to_maya_ok[OF sample_exec_command[folded exec_text_def] utf8_ascii[OF exec_text_ascii], of st code]
  show ?thesis by (simp only: j)
qed

section \<open>The attach orchestrator\<close>


lemma build_attach_request: "build attach_request [] = (VRef 3, attach_heap)"
  by (simp add: attach_request_def address_doc_def attach_heap_def)


lemma str_int_7002: "str_int 7002 = py ''7002''"
  by (simp add: str_int_def digits_of.simps py_def)


lemma sample_attach_code: "attach_code sample_util attach_heap (VRef 2) = Inr sample_attach_code"
  by (simp add: attach_code_def getitem_def attach_heap_def sample_util_def sample_attach_code_def
        str_int_def digits_of.simps py_def)




section \<open>The attach rewrite and the store\<close>

lemma build_extends:
  "build j h = (v, h') \<Longrightarrow> \<exists>e. h' = h @ e"
  "build_list js h = (vs, h') \<Longrightarrow> \<exists>e. h' = h @ e"
  "build_items kvs h = (d, h') \<Longrightarrow> \<exists>e. h' = h @ e"
proof (induction j h and js h and kvs h arbitrary: v h' and vs h' and d h'
       rule: build_build_list_build_items.induct)
  case (5 js h)
  obtain vs1 h1 where b: "build_list js h = (vs1, h1)" by (cases "build_list js h")
  from 5(1)[OF b] obtain e where "h1 = h @ e" by blast
  with 5(2) b show ?case by auto
next
  case (6 kvs h)
  obtain d1 h1 where b: "build_items kvs h = (d1, h1)" by (cases "build_items kvs h")
  from 6(1)[OF b] obtain e where "h1 = h @ e" by blast
  with 6(2) b show ?case by auto
next
  case (8 j js h)
  obtain v1 h1 where b1: "build j h = (v1, h1)" by (cases "build j h")
  obtain vs2 h2 where b2: "build_list js h1 = (vs2, h2)" by (cases "build_list js h1")
  from 8(1)[OF b1] obtain e1 where e1: "h1 = h @ e1" by blast
  from 8(2)[OF b1[symmetric] b2] obtain e2 where e2: "h2 = h1 @ e2" by blast
  from 8(3) b1 b2 e1 e2 show ?case by auto
next
  case (10 k j kvs h)
  obtain v1 h1 where b1: "build j h = (v1, h1)" by (cases "build j h")
  obtain d2 h2 where b2: "build_items kvs h1 = (d2, h2)" by (cases "build_items kvs h1")
  from 10(1)[OF b1] obtain e1 where e1: "h1 = h @ e1" by blast
  from 10(2)[OF b1[symmetric] b2] obtain e2 where e2: "h2 = h1 @ e2" by blast
  from 10(3) b1 b2 e1 e2 show ?case by auto
qed auto

lemma agrees_split:
  assumes "agrees h (h @ e1 @ e2) H"
  shows "agrees h (h @ e1) H" and "agrees (h @ e1) (h @ e1 @ e2) H"
proof -
  show "agrees h (h @ e1) H"
    unfolding agrees_def
  proof (intro conjI allI impI)
    show "length (h @ e1) \<le> length H" using assms by (simp add: agrees_def)
  next
    fix a assume a: "length h \<le> a" "a < length (h @ e1)"
    then have "H ! a = (h @ e1 @ e2) ! a" using assms by (simp add: agrees_def)
    also have "\<dots> = ((h @ e1) @ e2) ! a" by simp
    also have "\<dots> = (h @ e1) ! a" using a(2) by (simp only: nth_append if_True)
    finally show "H ! a = (h @ e1) ! a" .
  qed
  show "agrees (h @ e1) (h @ e1 @ e2) H"
    using assms by (simp add: agrees_def)
qed

lemma agrees_last:
  assumes "agrees h (h1 @ [x]) H" and "length h \<le> length h1"
  shows "length h1 < length H" and "H ! length h1 = x"
  using assms by (auto simp: agrees_def)

lemma reify_build:
  "build j h = (v, h') \<Longrightarrow> agrees h h' H \<Longrightarrow> length h' \<le> length h + n \<Longrightarrow>
     reify n H v = Some j"
  "build_list js h = (vs, h') \<Longrightarrow> agrees h h' H \<Longrightarrow> length h' \<le> length h + n \<Longrightarrow>
     reify_list n H vs = Some js"
  "build_items kvs h = (d, h') \<Longrightarrow> agrees h h' H \<Longrightarrow> length h' \<le> length h + n \<Longrightarrow>
     reify_items n H d = Some kvs"
proof (induction j h and js h and kvs h arbitrary: v h' n and vs h' n and d h' n
       rule: build_build_list_build_items.induct)
  case (5 js h)
  obtain vs1 h1 where b: "build_list js h = (vs1, h1)" by (cases "build_list js h")
  from build_extends(2)[OF b] obtain e where e: "h1 = h @ e" by blast
  from 5(2) b have v: "v = VRef (length h1)" and h': "h' = h @ e @ [OList vs1]"
    by (auto simp: e)
  from 5(4) h' obtain m where n: "n = Suc m" and m: "length h1 \<le> length h + m"
    by (cases n) (auto simp: e)
  from agrees_split(1)[OF 5(3)[unfolded h']] have a1: "agrees h h1 H" by (simp add: e)
  from 5(3) h' e have "agrees h (h1 @ [OList vs1]) H" by simp
  from agrees_last[OF this] e have l: "length h1 < length H" "H ! length h1 = OList vs1"
    by simp_all
  from 5(1)[OF b a1 m] have "reify_list m H vs1 = Some js" .
  with v n l show ?case by simp
next
  case (6 kvs h)
  obtain d1 h1 where b: "build_items kvs h = (d1, h1)" by (cases "build_items kvs h")
  from build_extends(3)[OF b] obtain e where e: "h1 = h @ e" by blast
  from 6(2) b have v: "v = VRef (length h1)" and h': "h' = h @ e @ [ODict d1]"
    by (auto simp: e)
  from 6(4) h' obtain m where n: "n = Suc m" and m: "length h1 \<le> length h + m"
    by (cases n) (auto simp: e)
  from agrees_split(1)[OF 6(3)[unfolded h']] have a1: "agrees h h1 H" by (simp add: e)
  from 6(3) h' e have "agrees h (h1 @ [ODict d1]) H" by simp
  from agrees_last[OF this] e have l: "length h1 < length H" "H ! length h1 = ODict d1"
    by simp_all
  from 6(1)[OF b a1 m] have "reify_items m H d1 = Some kvs" .
  with v n l show ?case by simp
next
  case (8 j js h)
  obtain v1 h1 where b1: "build j h = (v1, h1)" by (cases "build j h")
  obtain vs2 h2 where b2: "build_list js h1 = (vs2, h2)" by (cases "build_list js h1")
  from build_extends(1)[OF b1] obtain e1 where e1: "h1 = h @ e1" by blast
  from build_extends(2)[OF b2] obtain e2 where e2: "h2 = h1 @ e2" by blast
  from 8(3) b1 b2 have vs: "vs = v1 # vs2" and h': "h' = h @ e1 @ e2"
    by (auto simp: e1 e2)
  note sp = agrees_split[OF 8(4)[unfolded h']]
  have a1: "agrees h h1 H" using sp(1) by (simp add: e1)
  have a2: "agrees h1 h2 H" using sp(2) by (simp add: e1 e2)
  from 8(5) h' have l1: "length h1 \<le> length h + n" and l2: "length h2 \<le> length h1 + n"
    by (simp_all add: e1 e2)
  from 8(1)[OF b1 a1 l1] 8(2)[OF b1[symmetric] b2 a2 l2] vs show ?case by simp
next
  case (10 k j kvs h)
  obtain v1 h1 where b1: "build j h = (v1, h1)" by (cases "build j h")
  obtain d2 h2 where b2: "build_items kvs h1 = (d2, h2)" by (cases "build_items kvs h1")
  from build_extends(1)[OF b1] obtain e1 where e1: "h1 = h @ e1" by blast
  from build_extends(3)[OF b2] obtain e2 where e2: "h2 = h1 @ e2" by blast
  from 10(3) b1 b2 have d: "d = (k, v1) # d2" and h': "h' = h @ e1 @ e2"
    by (auto simp: e1 e2)
  note sp = agrees_split[OF 10(4)[unfolded h']]
  have a1: "agrees h h1 H" using sp(1) by (simp add: e1)
  have a2: "agrees h1 h2 H" using sp(2) by (simp add: e1 e2)
  from 10(5) h' have l1: "length h1 \<le> length h + n" and l2: "length h2 \<le> length h1 + n"
    by (simp_all add: e1 e2)
  from 10(1)[OF b1 a1 l1] 10(2)[OF b1[symmetric] b2 a2 l2] d show ?case by simp
qed auto

text \<open>Looking a key up in a built dictionary, in any store that still has its objects.\<close>

lemma build_items_lookup:
  "build_items kvs h = (d, h') \<Longrightarrow> agrees h h' H \<Longrightarrow>
   (map_of kvs k = None \<longrightarrow> map_of d k = None)
   \<and> (\<forall>jc. map_of kvs k = Some jc \<longrightarrow>
         (\<exists>hc hc' vc. map_of d k = Some vc \<and> build jc hc = (vc, hc') \<and> agrees hc hc' H))"
proof (induction kvs arbitrary: h d h')
  case Nil
  then show ?case by simp
next
  case (Cons x kvs)
  obtain k' j where x: "x = (k', j)" by (cases x)
  obtain v1 h1 where b1: "build j h = (v1, h1)" by (cases "build j h")
  obtain d2 h2 where b2: "build_items kvs h1 = (d2, h2)" by (cases "build_items kvs h1")
  from build_extends(1)[OF b1] obtain e1 where e1: "h1 = h @ e1" by blast
  from build_extends(3)[OF b2] obtain e2 where e2: "h2 = h1 @ e2" by blast
  from Cons.prems(1) x b1 b2 have d: "d = (k', v1) # d2" and h': "h' = h @ e1 @ e2"
    by (auto simp: e1 e2)
  note sp = agrees_split[OF Cons.prems(2)[unfolded h']]
  have a1: "agrees h h1 H" using sp(1) by (simp add: e1)
  have a2: "agrees h1 h2 H" using sp(2) by (simp add: e1 e2)
  note ih = Cons.IH[OF b2 a2]
  show ?case
  proof (cases "k' = k")
    case True
    with x d b1 a1 show ?thesis by auto
  next
    case False
    with x d ih show ?thesis by simp
  qed
qed

lemma getitem_built:
  assumes b: "build (JObj kvs) h = (v, h')" and a: "agrees h h' H"
  shows "(map_of kvs k = None \<longrightarrow> getitem H v k = Inl KeyError)
   \<and> (\<forall>jc. map_of kvs k = Some jc \<longrightarrow>
         (\<exists>hc hc' vc. getitem H v k = Inr vc \<and> build jc hc = (vc, hc') \<and> agrees hc hc' H))"
proof -
  from build_obj[OF b] obtain d h1 where
    bi: "build_items kvs h = (d, h1)" and v: "v = VRef (length h1)" and h': "h' = h1 @ [ODict d]"
    by blast
  from build_extends(3)[OF bi] obtain e where e: "h1 = h @ e" by blast
  from a h' e have "agrees h (h @ e @ [ODict d]) H" by simp
  from agrees_split(1)[OF this] have a1: "agrees h h1 H" by (simp add: e)
  from a h' have "agrees h (h1 @ [ODict d]) H" by simp
  from agrees_last[OF this] e have l: "length h1 < length H" "H ! length h1 = ODict d"
    by simp_all
  have g: "getitem H v k = (case map_of d k of None \<Rightarrow> Inl KeyError | Some x \<Rightarrow> Inr x)"
    by (simp add: getitem_def v l)
  from build_items_lookup[OF bi a1, of k] show ?thesis
    unfolding g by (cases "map_of kvs k") (auto, blast)
qed

lemma build_imm:
  "build (JStr s) h = (v, h') \<Longrightarrow> v = VStr s"
  "build (JInt i) h = (v, h') \<Longrightarrow> v = VInt i"
  by auto

lemma agrees_take:
  "take (length h') H = h' \<Longrightarrow> agrees h h' H"
proof -
  assume t: "take (length h') H = h'"
  have "length (take (length h') H) = min (length H) (length h')"
    by simp
  with t have l: "length h' \<le> length H"
    by simp
  have "H ! a = h' ! a" if "a < length h'" for a
  proof -
    have "take (length h') H ! a = H ! a" using that by simp
    with t show ?thesis by simp
  qed
  with l show ?thesis by (simp add: agrees_def)
qed

lemma agrees_refl: "agrees h h' h'"
  by (simp add: agrees_def)





lemma initialize_branch_heap:
  "heap (fst (initialize_branch U st c m)) = heap st"
  by (simp add: initialize_branch_def Let_def emit_def split: option.splits sum.splits)

lemma take_update_above: "take n (xs[n := x]) = take n xs"
  by simp

lemma attach_branch_frame:
  "take (length (heap st)) (heap (fst (attach_branch U st c))) = heap st"
proof (cases "new_args U (heap st) c")
  case (Inl e)
  then show ?thesis by (simp add: attach_branch_def Let_def emit_def)
next
  case na: (Inr t)
  show ?thesis
  proof (cases "copy (heap st) c")
    case (Inl e)
    with na show ?thesis by (simp add: attach_branch_def Let_def emit_def)
  next
    case (Inr r)
    obtain c' h2 where r: "r = (c', h2)" by (cases r)
    from Inr r obtain x where h2: "h2 = heap st @ [x]" and c': "c' = VRef (length (heap st))"
      by (auto simp: copy_def split: pyval.splits if_splits)
    show ?thesis
    proof (cases "loads U t")
      case None
      with na Inr r h2 show ?thesis by (simp add: attach_branch_def Let_def emit_def)
    next
      case (Some a)
      obtain arguments h3 where ba: "build a h2 = (arguments, h3)" by (cases "build a h2")
      from build_extends(1)[OF ba] obtain e where e: "h3 = heap st @ [x] @ e"
        by (auto simp: h2)
      show ?thesis
      proof (cases "setitem h3 c' (py ''arguments'') arguments")
        case (Inl e')
        with na Inr r Some ba e show ?thesis by (simp add: attach_branch_def Let_def emit_def)
      next
        case si: (Inr h4)
        then obtain y where h4: "h4 = h3[length (heap st) := y]"
          by (auto simp: setitem_def c' split: if_splits pyobj.splits)
        have t: "take (length (heap st)) h4 = heap st"
          by (simp add: h4 e)
        from na Inr r Some ba si t show ?thesis
          by (simp add: attach_branch_def Let_def emit_def split: sum.splits)
      qed
    qed
  qed
qed

lemma on_receive_from_debugger_frame:
  assumes l: "loads U m = Some j" and b: "build j (heap st) = (contents, h1)"
  shows "take (length h1) (heap (fst (on_receive_from_debugger U st m))) = h1"
proof (cases "getitem h1 contents (py ''command'')")
  case (Inl e)
  show ?thesis
    unfolding on_receive_from_debugger_Inl[OF l b Inl]
    by (simp add: received_def emit_def)
next
  case (Inr cmd)
  define st1 where "st1 = received st h1 m"
  have hp: "heap st1 = h1" by (simp add: st1_def received_def emit_def)
  define br where "br = (if cmd = VStr (py ''initialize'') then initialize_branch U st1 contents m
            else if cmd = VStr (py ''attach'') then attach_branch U st1 contents
            else (st1, Inr m))"
  have fr: "take (length h1) (heap (fst br)) = h1"
    using initialize_branch_heap[of U st1 contents m] attach_branch_frame[of st1 U contents]
    by (simp add: br_def hp)
  have "heap (fst (on_receive_from_debugger U st m)) = heap (fst br)"
    unfolding on_receive_from_debugger_Inr[OF l b Inr] st1_def[symmetric] br_def[symmetric]
    by (cases br; cases "snd br"; simp add: queue_put_def)
  with fr show ?thesis by simp
qed

text \<open>
  C10. An attach request: the object \<open>contents\<close> that \<open>json.loads\<close> made of the message is the
  one handed to \<open>attach_to_maya\<close>. When the handler is done, every object that was in the store
  at that moment is unchanged (the handler only added objects and assigned into its own
  copy), and \<open>contents\<close> still reads as the original document, arguments included.
\<close>

theorem attach_rewrite_leaves_original:
  assumes obj: "loads U message = Some (JObj kvs)"
    and cmd: "map_of kvs (py ''command'') = Some (JStr (py ''attach''))"
    and b: "build (JObj kvs) (heap st) = (contents, h1)"
  shows "Run_in_new_thread (Attach_to_maya contents) None
           \<in> set (events (fst (on_receive_from_debugger U st message)))
    \<and> take (length h1) (heap (fst (on_receive_from_debugger U st message))) = h1
    \<and> reify (length (heap (fst (on_receive_from_debugger U st message))))
         (heap (fst (on_receive_from_debugger U st message))) contents = Some (JObj kvs)"
proof -
  let ?st' = "fst (on_receive_from_debugger U st message)"
  note fr = on_receive_from_debugger_frame[OF obj b]
  have ag: "agrees (heap st) h1 (heap ?st')"
    by (rule agrees_take[OF fr])
  then have le: "length h1 \<le> length (heap st) + length (heap ?st')"
    by (simp add: agrees_def)
  note re = reify_build(1)[OF b ag le]
  from getitem_built[OF b agrees_refl, of "py ''command''"] cmd
  obtain hc hc' cv where c: "getitem h1 contents (py ''command'') = Inr cv"
    "build (JStr (py ''attach'')) hc = (cv, hc')"
    by blast
  from c(2) have cv: "cv = VStr (py ''attach'')" by simp
  have ne: "py ''attach'' \<noteq> py ''initialize''"
    by (simp add: py_def)
  have ev: "Run_in_new_thread (Attach_to_maya contents) None
              \<in> set (events (fst (attach_branch U s contents)))" for s
    by (simp add: attach_branch_def Let_def emit_def split: sum.splits option.splits prod.splits)
  have "events ?st' = events (fst (attach_branch U (received st h1 message) contents))"
    unfolding on_receive_from_debugger_Inr[OF obj b c(1)] cv
    by (cases "attach_branch U (received st h1 message) contents";
        cases "snd (attach_branch U (received st h1 message) contents)";
        simp add: ne queue_put_def)
  with ev have "Run_in_new_thread (Attach_to_maya contents) None \<in> set (events ?st')"
    by simp
  with fr re show ?thesis by blast
qed


lemma attach_request_items:
  "attach_request =
     JObj [(py ''seq'', JInt 2), (py ''type'', JStr (py ''request'')),
           (py ''command'', JStr (py ''attach'')),
           (py ''arguments'',
            JObj [(py ''program'', JStr (py ''/proj/tool.py'')),
                  (py ''maya'', JObj [(py ''host'', JStr (py ''localhost'')), (py ''port'', JInt 7001)]),
                  (py ''debugpy'', JObj [(py ''host'', JStr (py ''localhost'')), (py ''port'', JInt 7002)])])]"
  by (simp add: attach_request_def address_doc_def)


theorem attach_rewrite_leaves_original_witness:
  "loads sample_util attach_request_text = Some attach_request
   \<and> build attach_request (heap initial_state) = (VRef 3, attach_heap)
   \<and> Run_in_new_thread (Attach_to_maya (VRef 3)) None
        \<in> set (events (fst (on_receive_from_debugger sample_util initial_state attach_request_text)))
   \<and> take (length attach_heap)
        (heap (fst (on_receive_from_debugger sample_util initial_state attach_request_text)))
       = attach_heap
   \<and> reify (length (heap (fst (on_receive_from_debugger sample_util initial_state attach_request_text))))
         (heap (fst (on_receive_from_debugger sample_util initial_state attach_request_text))) (VRef 3)
       = Some attach_request"
proof -
  let ?kvs = "[(py ''seq'', JInt 2), (py ''type'', JStr (py ''request'')),
               (py ''command'', JStr (py ''attach'')),
               (py ''arguments'',
                JObj [(py ''program'', JStr (py ''/proj/tool.py'')),
                  (py ''maya'', JObj [(py ''host'', JStr (py ''localhost'')), (py ''port'', JInt 7001)]),
                  (py ''debugpy'', JObj [(py ''host'', JStr (py ''localhost'')), (py ''port'', JInt 7002)])])]"
  have h1: "loads sample_util attach_request_text = Some (JObj ?kvs)"
    by (simp only: loads_sample attach_request_items)
  have h2: "map_of ?kvs (py ''command'') = Some (JStr (py ''attach''))"
    by (simp add: py_def)
  have h3: "build (JObj ?kvs) (heap initial_state) = (VRef 3, attach_heap)"
    using build_attach_request by (simp only: attach_request_items initial_state_def state.simps)
  from attach_rewrite_leaves_original[of sample_util attach_request_text ?kvs initial_state
      "VRef 3" attach_heap, OF h1 h2 h3] h1 h3
  show ?thesis
    by (simp only: attach_request_items[symmetric]) 
qed

section \<open>A session with an attach\<close>

lemma session_attached: "session sample_util attached = attached_state"
  by (simp add: session_def attached_def attached_state_def request_heap_def initial_state_def
      on_receive_from_debugger_def initialize_branch_def attach_branch_def new_args_def
      copy_def setitem_def json_dumps_def getitem_def attach_to_maya_def attach_code_def
      make_run_code_def address_def send_code_to_maya_def
      sample_util_def documents_def text_of_def sample_texts
      initialize_request_def initialize_response_def attach_request_def address_doc_def
      rewritten_arguments_def rewritten_request_def configuration_done_def stopped_event_def
      negative_initialize_def sample_run_code_def sample_attach_code_def exec_text_def
      posix_dirname_def posix_head_def posix_basename_def posix_join_def slash_def
      drop_last3_def or_else_def replace_backslash_def backslash_def
      str_int_def digits_of.simps utf8_def utf8_char_def encodable_def
      emit_def queue_put_def Let_def py_def)

lemmas sample_run =
  session_def initial_state_def
  on_receive_from_debugger_def initialize_branch_def attach_branch_def new_args_def
  copy_def setitem_def json_dumps_def getitem_def attach_to_maya_def attach_code_def
  make_run_code_def address_def send_code_to_maya_def
  sample_util_def documents_def text_of_def sample_texts
  initialize_request_def initialize_response_def attach_request_def address_doc_def
  rewritten_arguments_def rewritten_request_def configuration_done_def stopped_event_def
  negative_initialize_def sample_run_code_def sample_attach_code_def exec_text_def
  posix_dirname_def posix_head_def posix_basename_def posix_join_def slash_def
  drop_last3_def or_else_def replace_backslash_def backslash_def
  str_int_def digits_of.simps utf8_def utf8_char_def encodable_def
  emit_def queue_put_def Let_def py_def

lemma attached_negative_recorded:
  "processed_seqs (session sample_util attached_negative) = [VInt (- 1)]"
  "sent_to_debugger (session sample_util attached_negative) = [initialize_response_text]"
  by (simp_all add: attached_negative_def sent_to_debugger_def sample_run)

lemma sample_send_fails:
  "send_code_to_maya sample_util Send_fails st code =
     (st\<lparr>events := events st @
         [File_write (py ''/tmp/temp.py'') code,
          Log [py ''Sending '' @ exec_text @ py '' to Maya'']]\<rparr>, Some OSError)"
proof -
  have j: "join sample_util (gettempdir sample_util) (py ''temp.py'') = py ''/tmp/temp.py''"
    by (simp add: sample_util_def posix_join_def slash_def py_def)
  note f = sample_exec_command[folded exec_text_def, unfolded j]
  show ?thesis
    unfolding send_code_to_maya_def j
    by (simp add: f utf8_ascii[OF exec_text_ascii] Let_def emit_def)
qed

lemma attached_state_fields:
  "processed_seqs attached_state = [VInt 1]"
  "run_code attached_state = sample_run_code"
  "sent_to_debugger attached_state = [initialize_response_text]"
  "file_writes (events attached_state) = [sample_attach_code]"
  "maya_sends (events attached_state) = [map char_of exec_text]"
  by (simp_all add: attached_state_def sent_to_debugger_def)

lemma configuration_done_items:
  "loads sample_util configuration_done_text
     = Some (JObj [(py ''request_seq'', JInt 3), (py ''success'', JBool True),
                   (py ''command'', JStr (py ''configurationDone'')),
                   (py ''type'', JStr (py ''response''))])"
  "map_of [(py ''request_seq'', JInt 3), (py ''success'', JBool True),
           (py ''command'', JStr (py ''configurationDone'')),
           (py ''type'', JStr (py ''response''))] (py ''request_seq'') = Some (JInt 3)"
  "map_of [(py ''request_seq'', JInt 3), (py ''success'', JBool True),
           (py ''command'', JStr (py ''configurationDone'')),
           (py ''type'', JStr (py ''response''))] (py ''command'')
     = Some (JStr (py ''configurationDone''))"
  by (simp_all add: loads_sample configuration_done_def py_def)

text \<open>
  C3, as amended. A message from the debug engine that is a JSON object and whose
  \<open>request_seq\<close> is an integer \<open>r\<close> (or that has no \<open>request_seq\<close>, while -1 is not among the
  recorded sequence numbers; then \<open>r\<close> is -1). If its command is \<open>configurationDone\<close> and the
  submission to Maya raises, the handler raises the same exception and sends the debugger
  nothing. In every other case the handler raises nothing, and the message is sent to the
  debugger, unchanged and once, exactly when \<open>r\<close> is not recorded; when \<open>r\<close> is recorded,
  nothing is sent.
\<close>

theorem debugpy_message_suppressed_or_forwarded:
  assumes obj: "loads U message = Some (JObj kvs)"
    and rs: "map_of kvs (py ''request_seq'') = Some (JInt r)
             \<or> map_of kvs (py ''request_seq'') = None \<and> r = - 1
                 \<and> \<not> int_in (- 1) (processed_seqs st)"
  shows "if map_of kvs (py ''command'') = Some (JStr (py ''configurationDone''))
            \<and> snd (send_code_to_maya U io st (run_code st)) \<noteq> None
         then snd (on_receive_from_debugpy U io st message)
                = snd (send_code_to_maya U io st (run_code st))
              \<and> sent_to_debugger (fst (on_receive_from_debugpy U io st message))
                = sent_to_debugger st
         else snd (on_receive_from_debugpy U io st message) = None
              \<and> sent_to_debugger (fst (on_receive_from_debugpy U io st message))
                = (if int_in r (processed_seqs st) then sent_to_debugger st
                   else sent_to_debugger st @ [message])"
proof -
  from rs have seq: "json_int (case map_of kvs (py ''request_seq'') of
                                 None \<Rightarrow> JInt (- 1) | Some v \<Rightarrow> v) = Inr r"
    by auto
  note res = on_receive_from_debugpy_result[OF obj seq, of io st]
  obtain st1 e where s: "send_code_to_maya U io st (run_code st) = (st1, e)"
    by (cases "send_code_to_maya U io st (run_code st)")
  from send_code_to_maya_frame[of U io st "run_code st"] s
  have fr: "processed_seqs st1 = processed_seqs st" "sent_to_debugger st1 = sent_to_debugger st"
    by simp_all
  show ?thesis
  proof (cases "map_of kvs (py ''command'') = Some (JStr (py ''configurationDone''))")
    case True
    show ?thesis
    proof (cases e)
      case None
      with True s fr show ?thesis
        unfolding res by (simp add: sent_emit)
    next
      case (Some x)
      with True s fr show ?thesis
        unfolding res by simp
    qed
  next
    case False
    then show ?thesis
      unfolding res by (simp add: sent_emit)
  qed
qed

theorem debugpy_message_suppressed_or_forwarded_counterexample:
  "loads sample_util configuration_done_text = Some configuration_done
   \<and> json_get configuration_done (py ''request_seq'') JNull = Inr (JInt 3)
   \<and> \<not> int_in 3 (processed_seqs (session sample_util attached))
   \<and> snd (on_receive_from_debugpy sample_util Send_fails (session sample_util attached)
            configuration_done_text) = Some OSError
   \<and> sent_to_debugger (fst (on_receive_from_debugpy sample_util Send_fails
            (session sample_util attached) configuration_done_text))
       = sent_to_debugger (session sample_util attached)"
proof -
  have s: "json_int (case map_of [(py ''request_seq'', JInt 3), (py ''success'', JBool True),
                     (py ''command'', JStr (py ''configurationDone'')),
                     (py ''type'', JStr (py ''response''))] (py ''request_seq'') of
                       None \<Rightarrow> JInt (- 1) | Some v \<Rightarrow> v) = Inr 3"
    by (simp add: py_def)
  have g: "json_get configuration_done (py ''request_seq'') JNull = Inr (JInt 3)"
    by (simp add: configuration_done_def py_def)
  have n: "\<not> int_in 3 (processed_seqs attached_state)"
    by (simp add: attached_state_fields int_in_def)
  have "on_receive_from_debugpy sample_util Send_fails attached_state configuration_done_text =
          (attached_state\<lparr>events := events attached_state @
             [File_write (py ''/tmp/temp.py'') (run_code attached_state),
              Log [py ''Sending '' @ exec_text @ py '' to Maya'']]\<rparr>, Some OSError)"
    unfolding on_receive_from_debugpy_result[OF configuration_done_items(1) s] sample_send_fails
    by (simp add: py_def)
  then show ?thesis
    using g n
    by (simp add: session_attached loads_sample sent_to_debugger_def interface_sends_append)
qed

theorem debugpy_message_suppressed_or_forwarded_witness:
  "loads sample_util configuration_done_text
     = Some (JObj [(py ''request_seq'', JInt 3), (py ''success'', JBool True),
                   (py ''command'', JStr (py ''configurationDone'')),
                   (py ''type'', JStr (py ''response''))])
   \<and> snd (on_receive_from_debugpy sample_util Maya_ok (session sample_util attached)
            configuration_done_text) = None
   \<and> sent_to_debugger (fst (on_receive_from_debugpy sample_util Maya_ok
            (session sample_util attached) configuration_done_text))
       = [initialize_response_text, configuration_done_text]"
proof -
  let ?kvs = "[(py ''request_seq'', JInt 3), (py ''success'', JBool True),
               (py ''command'', JStr (py ''configurationDone'')),
               (py ''type'', JStr (py ''response''))]"
  note h1 = configuration_done_items(1)
  have h2: "map_of ?kvs (py ''request_seq'') = Some (JInt 3)
            \<or> map_of ?kvs (py ''request_seq'') = None \<and> (3::int) = - 1
                \<and> \<not> int_in (- 1) (processed_seqs attached_state)"
    by (simp add: py_def)
  have ok: "snd (send_code_to_maya sample_util Maya_ok attached_state (run_code attached_state)) = None"
    by (simp add: sample_send_code)
  have n: "\<not> int_in 3 (processed_seqs attached_state)"
    by (simp add: attached_state_fields int_in_def)
  from debugpy_message_suppressed_or_forwarded
         [of sample_util configuration_done_text ?kvs 3 attached_state Maya_ok, OF h1 h2]
       ok n h1
  show ?thesis
    by (simp add: session_attached attached_state_fields)
qed

text \<open>
  C9: the code at the input that goes wrong. The debugger's \<open>initialize\<close> request carries the
  sequence number -1; the attach goes through. The recorded sequence numbers are then
  \<open>[-1]\<close>, and an event from the debug engine, which has no \<open>request_seq\<close>, is taken for
  answered: the handler raises nothing and sends the debugger nothing.
\<close>

theorem event_suppressed_after_negative_seq:
  "loads sample_util negative_initialize_text = Some negative_initialize
   \<and> json_get negative_initialize (py ''seq'') JNull = Inr (JInt (- 1))
   \<and> processed_seqs (session sample_util attached_negative) = [VInt (- 1)]
   \<and> loads sample_util stopped_event_text = Some stopped_event
   \<and> json_get stopped_event (py ''request_seq'') JNull = Inr JNull
   \<and> snd (on_receive_from_debugpy sample_util Maya_ok (session sample_util attached_negative)
            stopped_event_text) = None
   \<and> sent_to_debugger (fst (on_receive_from_debugpy sample_util Maya_ok
            (session sample_util attached_negative) stopped_event_text))
       = sent_to_debugger (session sample_util attached_negative)"
proof -
  let ?kvs = "[(py ''type'', JStr (py ''event'')), (py ''event'', JStr (py ''stopped''))]"
  have l: "loads sample_util stopped_event_text = Some (JObj ?kvs)"
    by (simp add: loads_sample stopped_event_def)
  have s: "json_int (case map_of ?kvs (py ''request_seq'') of
                       None \<Rightarrow> JInt (- 1) | Some v \<Rightarrow> v) = Inr (- 1)"
    by (simp add: py_def)
  have c: "map_of ?kvs (py ''command'') \<noteq> Some (JStr (py ''configurationDone''))"
    by (simp add: py_def)
  have g1: "json_get negative_initialize (py ''seq'') JNull = Inr (JInt (- 1))"
    by (simp add: negative_initialize_def py_def)
  have g2: "json_get stopped_event (py ''request_seq'') JNull = Inr JNull"
    by (simp add: stopped_event_def py_def)
  have i: "int_in (- 1) (processed_seqs (session sample_util attached_negative))"
    by (simp add: attached_negative_recorded int_in_def)
  show ?thesis
    unfolding on_receive_from_debugpy_result[OF l s]
    using g1 g2 i c
    by (simp add: loads_sample attached_negative_recorded sent_emit)
qed



section \<open>The send loop\<close>





lemma stopped_fields [simp]:
  "ending (stopped e q) = e"
  "left (stopped e q) = q"
  "wire (stopped e q) = []"
  "sends (stopped e q) = 0"
  "logged (stopped e q) = []"
  by (simp_all add: stopped_def)













section \<open>The receive loop at the end of the stream\<close>

lemma readline_end_of_stream: "readline end_of_stream = Got [] end_of_stream"
  by (simp add: readline_def end_of_stream_def)

lemma read_headers_end_of_stream: "read_headers U end_of_stream n = Got n end_of_stream"
  by (simp add: read_headers.simps readline_end_of_stream)

lemma receive_frame_end_of_stream: "receive_frame U fuel end_of_stream = No_message end_of_stream"
  by (simp add: receive_frame_def read_headers_end_of_stream)

text \<open>After the end of the stream no read waits: the stream stays at its end.\<close>

lemma readline_eof:
  assumes "behind s = Eof"
  shows "\<exists>line s'. readline s = Got line s' \<and> behind s' = Eof"
  using assms by (simp add: readline_def)

lemma read_eof:
  assumes "behind s = Eof"
  shows "\<exists>content s'. read n s = Got content s' \<and> behind s' = Eof"
  using assms by (simp add: read_def)

lemma read_headers_eof:
  "behind s = Eof \<Longrightarrow> read_headers U s n \<noteq> Blocks
     \<and> (\<forall>m s'. read_headers U s n = Got m s' \<longrightarrow> behind s' = Eof)"
proof (induction U s n rule: read_headers.induct)
  case (1 U s content_length)
  from readline_eof[OF "1.prems"] obtain line s' where
    r: "readline s = Got line s'" and b: "behind s' = Eof" by blast
  show ?case
    using r b "1.IH"(1)[OF r refl] "1.IH"(2)[OF r refl]
    by (subst (1 2) read_headers.simps) (auto simp: Let_def split: sum.splits)
qed

lemma read_body_eof:
  "behind s = Eof \<Longrightarrow> read_body fuel s n t \<noteq> Some Blocks
     \<and> (\<forall>r s'. read_body fuel s n t = Some (Got r s') \<longrightarrow> behind s' = Eof)"
proof (induction fuel arbitrary: s n t)
  case 0
  show ?case by simp
next
  case (Suc fuel)
  from read_eof[OF Suc.prems] obtain content s' where
    r: "read (nat n) s = Got content s'" and b: "behind s' = Eof" by blast
  show ?case using r Suc.IH[OF b] Suc.prems by auto
qed

lemma receive_frame_eof:
  assumes "behind s = Eof"
  shows "receive_frame U fuel s \<noteq> Frame_blocks
     \<and> (\<forall>m s'. receive_frame U fuel s = Dispatch m s' \<longrightarrow> behind s' = Eof)
     \<and> (\<forall>s'. receive_frame U fuel s = No_message s' \<longrightarrow> behind s' = Eof)"
proof (cases "read_headers U s 0")
  case (Got n s1)
  with read_headers_eof[OF assms, of U 0] have b: "behind s1 = Eof" by simp
  show ?thesis
    using Got b read_body_eof[OF b, of fuel n "[]"]
    by (auto simp: receive_frame_def split: option.splits reading.splits)
next
  case Blocks
  with read_headers_eof[OF assms, of U 0] show ?thesis by simp
next
  case (Raises e)
  then show ?thesis by (simp add: receive_frame_def)
qed

lemma receive_loop_eof:
  "behind s = Eof \<Longrightarrow> receive_loop fuel U io st s \<noteq> Blocked st' s'"
proof (induction fuel arbitrary: st s)
  case 0
  show ?case by simp
next
  case (Suc fuel)
  note f = receive_frame_eof[OF Suc.prems, of U fuel]
  show ?case
  proof (cases "receive_frame U fuel s")
    case (Dispatch m s1)
    with f have b: "behind s1 = Eof" by simp
    show ?thesis using Dispatch Suc.IH[OF b]
      by (cases "on_receive_from_debugpy U io st m") (auto split: option.splits)
  next
    case (No_message s1)
    with f have b: "behind s1 = Eof" by simp
    show ?thesis using No_message Suc.IH[OF b] by simp
  next
    case Frame_blocks
    with f show ?thesis by simp
  next
    case (Frame_raises e)
    then show ?thesis by simp
  next
    case Still_reading
    then show ?thesis by simp
  qed
qed

text \<open>
  C8. Once the debug engine has closed the connection and the text is read, a turn of the
  receive loop finds no message and raises nothing, and the loop goes on at once: however
  many turns it is given, it is still running, in the same state, and never waits in a
  read nor leaves through the \<open>except\<close> branch.
\<close>

theorem receive_loop_spins_at_end_of_stream:
  "receive_frame U fuel end_of_stream = No_message end_of_stream
   \<and> receive_loop fuel U io st end_of_stream = Running st end_of_stream"
proof
  show "receive_frame U fuel end_of_stream = No_message end_of_stream"
    by (rule receive_frame_end_of_stream)
  show "receive_loop fuel U io st end_of_stream = Running st end_of_stream"
    by (induction fuel) (simp_all add: receive_frame_end_of_stream)
qed

end
